theory Spec2Isabelle
  imports Complex_Main "HOL-Library.AList" "HOL-Library.Multiset"
begin

section \<open>JSON values and the JavaScript operations the handlers use\<close>

text \<open>
  The three server files (\<^verbatim>\<open>src/main-server.js\<close>, \<^verbatim>\<open>src/unnamed/part_000\<close> and
  \<^verbatim>\<open>src/unnamed/part_001\<close>) are variants of one Express server. Every handler reads a
  whole collection with \<^verbatim>\<open>readJSON\<close>, computes, and writes it back with
  \<^verbatim>\<open>writeJSON\<close>. Request bodies and stored records are JSON objects, so a value is a
  \<open>jval\<close> and an object is a list of key/value pairs in insertion order
  (JavaScript puts keys that are array indices first; no handler depends on the order
  of the keys). A property that is missing reads as \<^verbatim>\<open>undefined\<close>: the model reads
  it as \<open>None\<close>. A JSON number is a finite double; the model carries it as the
  rational it denotes.
\<close>

datatype jval =
    JNull
  | JBool bool
  | JNum rat
  | JStr string
  | JArr "jval list"
  | JObj "(string \<times> jval) list"

type_synonym obj = "(string \<times> jval) list"

text \<open>\<^verbatim>\<open>o.k\<close>: the value of property \<open>k\<close>, \<open>None\<close> for \<^verbatim>\<open>undefined\<close>.\<close>

definition getProp :: "obj \<Rightarrow> string \<Rightarrow> jval option" where
  "getProp ob k = map_of ob k"

text \<open>\<^verbatim>\<open>o.k = v\<close>: an existing key keeps its place, a new key goes last.\<close>

definition setProp :: "string \<Rightarrow> jval \<Rightarrow> obj \<Rightarrow> obj" where
  "setProp k v ob = AList.update k v ob"

text \<open>
  \<^verbatim>\<open>o.k = x\<close> where \<open>x\<close> may be \<^verbatim>\<open>undefined\<close>: \<^verbatim>\<open>JSON.stringify\<close> leaves a
  property whose value is \<^verbatim>\<open>undefined\<close> out, so in what is written and sent the key is
  gone.
\<close>

definition setPropOpt :: "string \<Rightarrow> jval option \<Rightarrow> obj \<Rightarrow> obj" where
  "setPropOpt k x ob = (case x of None \<Rightarrow> AList.delete k ob | Some v \<Rightarrow> setProp k v ob)"

text \<open>\<^verbatim>\<open>{ ...a, ...b }\<close>: the properties of \<open>a\<close>, then those of \<open>b\<close> set one by one.\<close>

definition spread :: "obj \<Rightarrow> obj \<Rightarrow> obj" where
  "spread a b = fold (\<lambda>(k, v). setProp k v) b a"

text \<open>
  Truthiness, as \<^verbatim>\<open>!x\<close> and \<^verbatim>\<open>x || y\<close> test it: \<^verbatim>\<open>undefined\<close>, \<^verbatim>\<open>null\<close>,
  \<^verbatim>\<open>false\<close>, \<^verbatim>\<open>0\<close> and the empty string are falsy; every array and object is truthy.
\<close>

fun truthy :: "jval option \<Rightarrow> bool" where
  "truthy None = False"
| "truthy (Some JNull) = False"
| "truthy (Some (JBool b)) = b"
| "truthy (Some (JNum r)) = (r \<noteq> 0)"
| "truthy (Some (JStr s)) = (s \<noteq> [])"
| "truthy (Some (JArr xs)) = True"
| "truthy (Some (JObj kvs)) = True"

text \<open>\<^verbatim>\<open>x || d\<close> with a default \<open>d\<close> that is defined.\<close>

definition orElse :: "jval option \<Rightarrow> jval \<Rightarrow> jval" where
  "orElse x d = (case x of None \<Rightarrow> d | Some a \<Rightarrow> if truthy (Some a) then a else d)"

text \<open>
  An object literal \<^verbatim>\<open>{ k1: x1, k2: x2 }\<close> as \<^verbatim>\<open>JSON.stringify\<close> writes it: a
  property whose value is \<^verbatim>\<open>undefined\<close> is left out.
\<close>

definition literal :: "(string \<times> jval option) list \<Rightarrow> obj" where
  "literal kxs = concat (map (\<lambda>(k, x). case x of None \<Rightarrow> [] | Some a \<Rightarrow> [(k, a)]) kxs)"

text \<open>
  \<^verbatim>\<open>a === b\<close>. Primitives compare by value. An array or an object is equal only to
  itself; the two sides of every comparison in the handlers come from different
  \<^verbatim>\<open>JSON.parse\<close> results (a stored record and a request), so they are never the same
  object.
\<close>

fun strictEq :: "jval option \<Rightarrow> jval option \<Rightarrow> bool" where
  "strictEq None None = True"
| "strictEq (Some JNull) (Some JNull) = True"
| "strictEq (Some (JBool a)) (Some (JBool b)) = (a = b)"
| "strictEq (Some (JNum a)) (Some (JNum b)) = (a = b)"
| "strictEq (Some (JStr a)) (Some (JStr b)) = (a = b)"
| "strictEq _ _ = False"

text \<open>\<^verbatim>\<open>xs.findIndex(p)\<close>: the first index whose element satisfies \<open>p\<close>; \<open>None\<close> for \<open>-1\<close>.\<close>

fun findIndex :: "('a \<Rightarrow> bool) \<Rightarrow> 'a list \<Rightarrow> nat option" where
  "findIndex p [] = None"
| "findIndex p (x # xs) =
     (if p x then Some 0 else (case findIndex p xs of None \<Rightarrow> None | Some i \<Rightarrow> Some (Suc i)))"

text \<open>
  Converting a value to a primitive, as a template literal and \<^verbatim>\<open>new Date(x)\<close> do,
  can throw. An object made by \<^verbatim>\<open>JSON.parse\<close> inherits \<^verbatim>\<open>toString\<close> and
  \<^verbatim>\<open>valueOf\<close> from \<^verbatim>\<open>Object.prototype\<close>; the inherited \<^verbatim>\<open>valueOf\<close> returns the
  object itself and the inherited \<^verbatim>\<open>toString\<close> a string. A key \<^verbatim>\<open>toString\<close> of the
  object's own hides the inherited method, and its value is no function (no JSON value
  is), so no method is left that gives a primitive and the conversion throws a
  \<^verbatim>\<open>TypeError\<close>. An array is converted by joining the conversions of its elements
  (\<^verbatim>\<open>null\<close> gives the empty string without being converted), so it throws when one
  of them does. Every other value converts.
\<close>

datatype thrown = TypeError

fun toPrimitiveThrows :: "jval \<Rightarrow> bool" where
  "toPrimitiveThrows (JObj kvs) = (map_of kvs ''toString'' \<noteq> None)"
| "toPrimitiveThrows (JArr xs) = list_ex toPrimitiveThrows xs"
| "toPrimitiveThrows _ = False"

text \<open>The same for a property that may be \<^verbatim>\<open>undefined\<close>, which converts.\<close>

definition conversionThrows :: "jval option \<Rightarrow> bool" where
  "conversionThrows x = (case x of None \<Rightarrow> False | Some a \<Rightarrow> toPrimitiveThrows a)"

section \<open>Dates\<close>

text \<open>
  A time value is the number of milliseconds since 1970-01-01T00:00:00Z, as
  \<^verbatim>\<open>Date.now()\<close> and \<^verbatim>\<open>new Date().getTime()\<close> give it. \<^verbatim>\<open>toISOString\<close> writes it as
  \<^verbatim>\<open>YYYY-MM-DDTHH:mm:ss.sssZ\<close> in the proleptic Gregorian calendar (years outside
  0..9999 with a sign and six digits).
\<close>

definition digitChar :: "nat \<Rightarrow> char" where
  "digitChar d = ''0123456789'' ! (d mod 10)"

definition digits2 :: "nat \<Rightarrow> string" where
  "digits2 n = [digitChar (n div 10), digitChar n]"

definition digits3 :: "nat \<Rightarrow> string" where
  "digits3 n = [digitChar (n div 100), digitChar (n div 10), digitChar n]"

definition digits4 :: "nat \<Rightarrow> string" where
  "digits4 n = [digitChar (n div 1000), digitChar (n div 100), digitChar (n div 10), digitChar n]"

definition digits6 :: "nat \<Rightarrow> string" where
  "digits6 n = [digitChar (n div 100000), digitChar (n div 10000)] @ digits4 n"

text \<open>
  The decimal digits of a number, as \<^verbatim>\<open>`${Date.now()}`\<close> writes them. The recursion
  is unfolded on demand only.
\<close>

fun decimal :: "nat \<Rightarrow> string" where
  "decimal n = (if n < 10 then [digitChar n] else decimal (n div 10) @ [digitChar n])"

declare decimal.simps [simp del]

text \<open>
  Days since the epoch to a civil date and back, by eras of 400 years (146097 days)
  with the year starting in March, so that the leap day is the last day of a year.
\<close>

definition yearOfEra :: "int \<Rightarrow> int" where
  "yearOfEra doe = (doe - doe div 1460 + doe div 36524 - doe div 146096) div 365"

definition civilOfMonth :: "int \<Rightarrow> int \<Rightarrow> int \<Rightarrow> int \<times> nat \<times> nat" where
  "civilOfMonth y doy mp =
     (if mp < 10 then y else y + 1,
      nat (if mp < 10 then mp + 3 else mp - 9),
      nat (doy - (153 * mp + 2) div 5 + 1))"

definition civilOfDay :: "int \<Rightarrow> int \<Rightarrow> int \<times> nat \<times> nat" where
  "civilOfDay y doy = civilOfMonth y doy ((5 * doy + 2) div 153)"

definition civilOfYear :: "int \<Rightarrow> int \<Rightarrow> int \<Rightarrow> int \<times> nat \<times> nat" where
  "civilOfYear era doe yoe =
     civilOfDay (yoe + era * 400) (doe - (365 * yoe + yoe div 4 - yoe div 100))"

definition civilOfEra :: "int \<Rightarrow> int \<Rightarrow> int \<times> nat \<times> nat" where
  "civilOfEra era doe = civilOfYear era doe (yearOfEra doe)"

definition civil_from_days :: "int \<Rightarrow> int \<times> nat \<times> nat" where
  "civil_from_days z = civilOfEra ((z + 719468) div 146097) ((z + 719468) mod 146097)"

definition daysOfYear :: "int \<Rightarrow> int \<Rightarrow> int" where
  "daysOfYear y doy =
     (y div 400) * 146097
     + ((y mod 400) * 365 + (y mod 400) div 4 - (y mod 400) div 100 + doy) - 719468"

definition days_from_civil :: "int \<Rightarrow> int \<Rightarrow> int \<Rightarrow> int" where
  "days_from_civil y m d =
     daysOfYear (if m \<le> 2 then y - 1 else y)
       ((153 * (if m > 2 then m - 3 else m + 9) + 2) div 5 + d - 1)"

definition yearString :: "int \<Rightarrow> string" where
  "yearString y =
     (if 0 \<le> y \<and> y \<le> 9999 then digits4 (nat y)
      else (if y < 0 then ''-'' else ''+'') @ digits6 (nat \<bar>y\<bar>))"

fun isoDate :: "int \<times> nat \<times> nat \<Rightarrow> string" where
  "isoDate (y, m, d) = yearString y @ ''-'' @ digits2 m @ ''-'' @ digits2 d"

definition isoTime :: "nat \<Rightarrow> string" where
  "isoTime ms =
     digits2 (ms div 3600000) @ '':'' @ digits2 (ms div 60000 mod 60) @ '':''
     @ digits2 (ms div 1000 mod 60) @ ''.'' @ digits3 (ms mod 1000)"

definition toISOString :: "int \<Rightarrow> string" where
  "toISOString t =
     isoDate (civil_from_days (t div 86400000)) @ ''T'' @ isoTime (nat (t mod 86400000)) @ ''Z''"

text \<open>
  \<^verbatim>\<open>Date.parse\<close>. ECMAScript fixes its result on every string that \<^verbatim>\<open>toISOString\<close>
  produces: the time value that was written. The fields of a 24-character string
  are read positionally and the string is accepted when writing the time value back
  gives the same string. On every other string (shorter ISO forms, legacy formats,
  text that is no date) the result is the host's, the parameter \<open>host\<close>, which is
  given the value to convert: \<open>None\<close> stands for \<^verbatim>\<open>NaN\<close>.
\<close>

definition numAt :: "string \<Rightarrow> nat \<Rightarrow> nat \<Rightarrow> int" where
  "numAt s i n = int (foldl (\<lambda>a c. 10 * a + (of_char c - 48)) 0 (take n (drop i s)))"

definition isoCandidate :: "string \<Rightarrow> int" where
  "isoCandidate s =
     days_from_civil (numAt s 0 4) (numAt s 5 2) (numAt s 8 2) * 86400000
     + numAt s 11 2 * 3600000 + numAt s 14 2 * 60000 + numAt s 17 2 * 1000 + numAt s 20 3"

definition Date_parse :: "(jval \<Rightarrow> int option) \<Rightarrow> string \<Rightarrow> int option" where
  "Date_parse host s =
     (if toISOString (isoCandidate s) = s then Some (isoCandidate s) else host (JStr s))"

text \<open>
  \<^verbatim>\<open>new Date(x)\<close> for a property value \<open>x\<close>: \<open>Inl\<close> when the constructor throws,
  else \<open>Inr\<close> the time value, \<open>None\<close> for an Invalid Date. \<^verbatim>\<open>undefined\<close> gives an
  Invalid Date, \<^verbatim>\<open>null\<close> and booleans convert to the numbers 0 and 1, a number is
  truncated and must lie within 8.64e15 ms of the epoch, a string is parsed, and an
  array or object is first converted to a primitive, which throws or gives a string
  that the host parses.
\<close>

definition timeClip :: "rat \<Rightarrow> int option" where
  "timeClip r =
     (if \<bar>r\<bar> \<le> 8640000000000000 then Some (if r < 0 then - \<lfloor>- r\<rfloor> else \<lfloor>r\<rfloor>) else None)"

fun newDate :: "(jval \<Rightarrow> int option) \<Rightarrow> jval option \<Rightarrow> thrown + int option" where
  "newDate host None = Inr None"
| "newDate host (Some JNull) = Inr (Some 0)"
| "newDate host (Some (JBool b)) = Inr (Some (if b then 1 else 0))"
| "newDate host (Some (JNum r)) = Inr (timeClip r)"
| "newDate host (Some (JStr s)) = Inr (Date_parse host s)"
| "newDate host (Some (JArr xs)) =
     (if toPrimitiveThrows (JArr xs) then Inl TypeError else Inr (host (JArr xs)))"
| "newDate host (Some (JObj kvs)) =
     (if toPrimitiveThrows (JObj kvs) then Inl TypeError else Inr (host (JObj kvs)))"

section \<open>The server\<close>

text \<open>
  The state is the content of the three JSON files. \<open>MainServer\<close> is
  \<^verbatim>\<open>src/main-server.js\<close>, \<open>Part000\<close> is \<^verbatim>\<open>src/unnamed/part_000\<close> (the ten-minute
  server with \<^verbatim>\<open>sync-all\<close>) and \<open>Part001\<close> is \<^verbatim>\<open>src/unnamed/part_001\<close> (the
  five-minute server on port 5000). A handler takes what the request and the
  environment supply (the body, the clock readings, the answers of the remote stores)
  and the state, and returns the state it leaves and its answer: \<open>Inl\<close> an error
  with its HTTP status, \<open>Inr\<close> the data of the success body (texts shown to a
  person are left out). An exception that nothing inside the handler catches reaches
  the \<^verbatim>\<open>catch\<close> of the route, which answers with status 500: \<open>UnexpectedError\<close>.
  Failures of the file system itself are not modelled.
\<close>

record state =
  stores :: "obj list"
  products :: "obj list"
  orders :: "obj list"

datatype variant = MainServer | Part000 | Part001

datatype error = ValidationError | NotFoundError | SyncError string | UnexpectedError

fun httpStatus :: "error \<Rightarrow> nat" where
  "httpStatus ValidationError = 400"
| "httpStatus NotFoundError = 404"
| "httpStatus (SyncError msg) = 500"
| "httpStatus UnexpectedError = 500"

subsection \<open>POST /api/stores/register\<close>

text \<open>
  \<^verbatim>\<open>main-server.js\<close> 77-121, \<^verbatim>\<open>part_000\<close> 76-125, \<^verbatim>\<open>part_001\<close> 64-116. The clock is
  read once for \<^verbatim>\<open>lastSeen\<close> (\<open>t1\<close>) and once more for \<^verbatim>\<open>registeredAt\<close> (\<open>t2\<close>).
  \<open>Part001\<close> checks nothing, sets no \<^verbatim>\<open>registeredAt\<close>, and after writing the file
  probes the store and reports the outcome in the answer only.
\<close>

definition registerValid :: "variant \<Rightarrow> obj \<Rightarrow> bool" where
  "registerValid v storeInfo =
     (case v of
        MainServer \<Rightarrow> \<not> (\<not> truthy (getProp storeInfo ''storeId'') \<or> \<not> truthy (getProp storeInfo ''name''))
      | Part000 \<Rightarrow> \<not> (\<not> truthy (getProp storeInfo ''storeId'') \<or> \<not> truthy (getProp storeInfo ''name'')
                      \<or> \<not> truthy (getProp storeInfo ''url''))
      | Part001 \<Rightarrow> True)"

definition stampStore :: "variant \<Rightarrow> int \<Rightarrow> int \<Rightarrow> obj \<Rightarrow> obj" where
  "stampStore v t1 t2 storeInfo =
     (let s1 = setProp ''lastSeen'' (JStr (toISOString t1)) storeInfo;
          s2 = setProp ''status'' (JStr ''online'') s1
      in case v of
           MainServer \<Rightarrow> setProp ''registeredAt'' (JStr (toISOString t2)) s2
         | Part000 \<Rightarrow>
             setProp ''registeredAt'' (orElse (getProp s2 ''registeredAt'') (JStr (toISOString t2))) s2
         | Part001 \<Rightarrow> s2)"

definition sameStoreId :: "jval option \<Rightarrow> obj \<Rightarrow> bool" where
  "sameStoreId sid s = strictEq (getProp s ''storeId'') sid"

definition mergeStore :: "obj \<Rightarrow> obj list \<Rightarrow> obj list" where
  "mergeStore storeInfo ss =
     (case findIndex (sameStoreId (getProp storeInfo ''storeId'')) ss of
        Some existingIndex \<Rightarrow> ss[existingIndex := spread (ss ! existingIndex) storeInfo]
      | None \<Rightarrow> ss @ [storeInfo])"

datatype probeResult = ProbeOk | ProbeNotOk | ProbeThrows

fun connectivity :: "probeResult \<Rightarrow> string" where
  "connectivity ProbeOk = ''good''"
| "connectivity ProbeNotOk = ''poor''"
| "connectivity ProbeThrows = ''failed''"

definition register ::
  "variant \<Rightarrow> (jval option \<Rightarrow> probeResult) \<Rightarrow> int \<Rightarrow> int \<Rightarrow> obj \<Rightarrow> state \<Rightarrow> state \<times> (error + jval)" where
  "register v probe t1 t2 body st =
     (if \<not> registerValid v body then (st, Inl ValidationError)
      else
        let storeInfo = stampStore v t1 t2 body;
            ss = mergeStore storeInfo (stores st);
            st' = st\<lparr>stores := ss\<rparr>
        in case v of
             MainServer \<Rightarrow>
               (st', Inr (JObj [(''success'', JBool True), (''store'', JObj storeInfo),
                               (''totalStores'', JNum (of_nat (length ss)))]))
           | Part000 \<Rightarrow>
               (st', Inr (JObj [(''success'', JBool True), (''store'', JObj storeInfo),
                               (''totalStores'', JNum (of_nat (length ss))),
                               (''server'', JStr ''replit'')]))
           | Part001 \<Rightarrow>
               (st', Inr (JObj [(''success'', JBool True),
                               (''store'', JObj (setProp ''connectivity''
                                   (JStr (connectivity (probe (getProp storeInfo ''url'')))) storeInfo))])))"

subsection \<open>GET /api/stores\<close>

text \<open>
  \<^verbatim>\<open>main-server.js\<close> 124-141, \<^verbatim>\<open>part_000\<close> 128-146, \<^verbatim>\<open>part_001\<close> 182-199.
  \<open>now\<close> is the time value the clock gives. The subtraction \<^verbatim>\<open>now - lastSeen\<close> is
  one of doubles: a difference below \<open>2^53\<close> in magnitude is exact, and from there on
  (two time values differ by less than \<open>2^54\<close>) the doubles are the even integers, an
  odd difference lies midway between two of them and goes to the multiple of 4. The
  division by 60000 rounds once more: the quotient is a multiple of 1/60000 below
  \<open>2^38\<close>, and of 1/30000 from there on, and the rounding moves it by less than that,
  so neither its comparison with the threshold nor its floor changes and the model
  keeps the quotient as it is. \<open>minutesAgo\<close> is \<open>None\<close> for \<^verbatim>\<open>NaN\<close>, and a
  comparison with \<^verbatim>\<open>NaN\<close> is false. \<open>Part000\<close> also stores
  \<^verbatim>\<open>Math.floor(minutesAgo)\<close>, which \<^verbatim>\<open>JSON.stringify\<close> writes as \<^verbatim>\<open>null\<close> when it
  is \<^verbatim>\<open>NaN\<close>.
\<close>

fun threshold :: "variant \<Rightarrow> rat" where
  "threshold MainServer = 10"
| "threshold Part000 = 10"
| "threshold Part001 = 5"

definition roundDiff :: "int \<Rightarrow> int" where
  "roundDiff d =
     (if \<bar>d\<bar> < 2 ^ 53 \<or> even d then d else if (d + 1) mod 4 = 0 then d + 1 else d - 1)"

definition minutesAgo :: "(jval \<Rightarrow> int option) \<Rightarrow> int \<Rightarrow> obj \<Rightarrow> thrown + rat option" where
  "minutesAgo host now store =
     (case newDate host (getProp store ''lastSeen'') of
        Inl e \<Rightarrow> Inl e
      | Inr None \<Rightarrow> Inr None
      | Inr (Some lastSeen) \<Rightarrow> Inr (Some (of_int (roundDiff (now - lastSeen)) / (1000 * 60))))"

definition numLess :: "rat option \<Rightarrow> rat \<Rightarrow> bool" where
  "numLess x y = (case x of None \<Rightarrow> False | Some a \<Rightarrow> a < y)"

text \<open>
  The callback of \<^verbatim>\<open>stores.forEach\<close> for one record: the record as the callback
  leaves it, or the exception of \<^verbatim>\<open>new Date(store.lastSeen)\<close>, thrown before anything
  is assigned.
\<close>

definition refreshStatus ::
  "variant \<Rightarrow> (jval \<Rightarrow> int option) \<Rightarrow> int \<Rightarrow> obj \<Rightarrow> thrown + obj" where
  "refreshStatus v host now store =
     (case minutesAgo host now store of
        Inl e \<Rightarrow> Inl e
      | Inr m \<Rightarrow>
          Inr (let s1 = setProp ''status''
                          (JStr (if numLess m (threshold v) then ''online'' else ''offline'')) store
               in case v of
                    Part000 \<Rightarrow>
                      setProp ''lastSeenMinutes''
                        (case m of None \<Rightarrow> JNull | Some a \<Rightarrow> JNum (of_int \<lfloor>a\<rfloor>)) s1
                  | _ \<Rightarrow> s1))"

text \<open>
  \<^verbatim>\<open>forEach\<close> runs the callback on the records in order and is left by the first
  exception. The file is written after the loop, so an exception leaves it as it was
  and the answer is 500.
\<close>

fun forEachStore :: "(obj \<Rightarrow> thrown + obj) \<Rightarrow> obj list \<Rightarrow> thrown + obj list" where
  "forEachStore f [] = Inr []"
| "forEachStore f (store # rest) =
     (case f store of
        Inl e \<Rightarrow> Inl e
      | Inr store' \<Rightarrow>
          (case forEachStore f rest of Inl e \<Rightarrow> Inl e | Inr rest' \<Rightarrow> Inr (store' # rest')))"

definition listStores ::
  "variant \<Rightarrow> (jval \<Rightarrow> int option) \<Rightarrow> int \<Rightarrow> state \<Rightarrow> state \<times> (error + jval)" where
  "listStores v host now st =
     (case forEachStore (refreshStatus v host now) (stores st) of
        Inl e \<Rightarrow> (st, Inl UnexpectedError)
      | Inr ss \<Rightarrow> (st\<lparr>stores := ss\<rparr>, Inr (JArr (map JObj ss))))"

subsection \<open>POST /api/stores/manual-add\<close>

text \<open>\<^verbatim>\<open>main-server.js\<close> 169-205, \<^verbatim>\<open>part_000\<close> 183-220, \<^verbatim>\<open>part_001\<close> 143-179.\<close>

definition manualValid :: "variant \<Rightarrow> obj \<Rightarrow> bool" where
  "manualValid v body =
     (case v of
        MainServer \<Rightarrow> \<not> (\<not> truthy (getProp body ''storeId'') \<or> \<not> truthy (getProp body ''name''))
      | _ \<Rightarrow> \<not> (\<not> truthy (getProp body ''storeId'') \<or> \<not> truthy (getProp body ''name'')
                \<or> \<not> truthy (getProp body ''url'')))"

definition manualStore :: "variant \<Rightarrow> int \<Rightarrow> obj \<Rightarrow> obj" where
  "manualStore v now body =
     literal
       ([(''storeId'', getProp body ''storeId''),
         (''name'', getProp body ''name''),
         (''location'', Some (orElse (getProp body ''location'') (JStr ''Unknown Location''))),
         (''url'', (case v of
                      MainServer \<Rightarrow> Some (orElse (getProp body ''url'') (JStr ''http://localhost:3000''))
                    | _ \<Rightarrow> getProp body ''url'')),
         (''lastSeen'', Some (JStr (toISOString now))),
         (''status'', Some (JStr ''online''))]
        @ (case v of Part000 \<Rightarrow> [(''addedManually'', Some (JBool True))] | _ \<Rightarrow> []))"

definition replaceStore :: "obj \<Rightarrow> obj list \<Rightarrow> obj list" where
  "replaceStore storeInfo ss =
     (case findIndex (sameStoreId (getProp storeInfo ''storeId'')) ss of
        Some existingIndex \<Rightarrow> ss[existingIndex := storeInfo]
      | None \<Rightarrow> ss @ [storeInfo])"

definition manualAdd :: "variant \<Rightarrow> int \<Rightarrow> obj \<Rightarrow> state \<Rightarrow> state \<times> (error + jval)" where
  "manualAdd v now body st =
     (if \<not> manualValid v body then (st, Inl ValidationError)
      else
        let storeInfo = manualStore v now body
        in (st\<lparr>stores := replaceStore storeInfo (stores st)\<rparr>,
            Inr (JObj [(''success'', JBool True), (''store'', JObj storeInfo)])))"

subsection \<open>POST /api/stores/:storeId/sync-products and POST /api/stores/sync-all\<close>

text \<open>
  \<open>fetchProducts url\<close> is what comes of asking the store at
  \<^verbatim>\<open>`${store.url}/api/products`\<close>: writing the address, the request or the reading
  of its body throws, the response is not \<^verbatim>\<open>ok\<close>, or it is \<^verbatim>\<open>ok\<close> with a JSON
  array of product records. It is the environment of one run of a handler: within the
  run a store answers alike whenever it is asked, and two runs may be given different
  answers.
\<close>

datatype fetchResult = FetchThrows string | FetchNotOk | FetchOk "obj list"

text \<open>
  \<^verbatim>\<open>allProducts.filter(p => p.storeId !== storeId)\<close> followed by
  \<^verbatim>\<open>[...otherStoreProducts, ...products]\<close>, the same in both handlers of all files.
\<close>

definition replaceProducts :: "jval option \<Rightarrow> obj list \<Rightarrow> obj list \<Rightarrow> obj list" where
  "replaceProducts sid fetched allProducts =
     (let otherStoreProducts = filter (\<lambda>p. \<not> strictEq (getProp p ''storeId'') sid) allProducts
      in otherStoreProducts @ fetched)"

text \<open>
  \<^verbatim>\<open>main-server.js\<close> 217-248, \<^verbatim>\<open>part_000\<close> 223-254, \<^verbatim>\<open>part_001\<close> 202-233: the same
  text in the three files. \<open>storeId\<close> is the route parameter, a string.
\<close>

definition syncProducts ::
  "(jval option \<Rightarrow> fetchResult) \<Rightarrow> string \<Rightarrow> state \<Rightarrow> state \<times> (error + jval)" where
  "syncProducts fetchProducts storeId st =
     (case find (sameStoreId (Some (JStr storeId))) (stores st) of
        None \<Rightarrow> (st, Inl NotFoundError)
      | Some store \<Rightarrow>
          (case fetchProducts (getProp store ''url'') of
             FetchThrows msg \<Rightarrow> (st, Inl (SyncError msg))
           | FetchNotOk \<Rightarrow> (st, Inl (SyncError ''Failed to fetch products from store''))
           | FetchOk fetched \<Rightarrow>
               (st\<lparr>products := replaceProducts (Some (JStr storeId)) fetched (products st)\<rparr>,
                Inr (JObj (literal [(''success'', Some (JBool True)),
                                    (''productsCount'', Some (JNum (of_nat (length fetched)))),
                                    (''store'', getProp store ''name'')])))))"

text \<open>
  \<^verbatim>\<open>part_000\<close> 257-293 and \<^verbatim>\<open>part_001\<close> 236-272 (\<^verbatim>\<open>main-server.js\<close> has no such
  route). The loop carries the products file, the two counters, and the list of the
  stores it has attempted (the \<^verbatim>\<open>url\<close> of each store whose \<^verbatim>\<open>try\<close> block it
  entered), in order. A response that is not \<^verbatim>\<open>ok\<close> is skipped. An exception is
  caught inside the loop by
  \<^verbatim>\<open>console.error(`Failed to sync store ${store.name}:`, error.message)\<close>, whose
  template literal converts the \<^verbatim>\<open>name\<close> of the store to a string: when that
  conversion throws, the exception leaves the loop with the products file as the
  stores before have left it, the stores after are not attempted, and the
  \<^verbatim>\<open>catch\<close> of the route answers 500.
\<close>

record syncAcc =
  catalog :: "obj list"
  totalProducts :: nat
  syncedStores :: nat
  attempted :: "jval option list"
  aborted :: bool

definition onlineStores :: "obj list \<Rightarrow> obj list" where
  "onlineStores ss = filter (\<lambda>s. strictEq (getProp s ''status'') (Some (JStr ''online''))) ss"

fun syncLoop :: "(jval option \<Rightarrow> fetchResult) \<Rightarrow> obj list \<Rightarrow> syncAcc \<Rightarrow> syncAcc" where
  "syncLoop fetchProducts [] acc = acc"
| "syncLoop fetchProducts (store # rest) acc =
     (let acc1 = acc\<lparr>attempted := attempted acc @ [getProp store ''url'']\<rparr>
      in case fetchProducts (getProp store ''url'') of
           FetchOk fetched \<Rightarrow>
             syncLoop fetchProducts rest
               (acc1\<lparr>catalog := replaceProducts (getProp store ''storeId'') fetched (catalog acc1),
                      totalProducts := totalProducts acc1 + length fetched,
                      syncedStores := syncedStores acc1 + 1\<rparr>)
         | FetchNotOk \<Rightarrow> syncLoop fetchProducts rest acc1
         | FetchThrows msg \<Rightarrow>
             (if conversionThrows (getProp store ''name'') then acc1\<lparr>aborted := True\<rparr>
              else syncLoop fetchProducts rest acc1))"

definition syncAll ::
  "(jval option \<Rightarrow> fetchResult) \<Rightarrow> state \<Rightarrow> state \<times> jval option list \<times> (error + jval)" where
  "syncAll fetchProducts st =
     (let acc = syncLoop fetchProducts (onlineStores (stores st))
                  \<lparr>catalog = products st, totalProducts = 0, syncedStores = 0, attempted = [],
                   aborted = False\<rparr>
      in (st\<lparr>products := catalog acc\<rparr>, attempted acc,
          if aborted acc then Inl UnexpectedError
          else Inr (JObj [(''success'', JBool True),
                          (''syncedStores'', JNum (of_nat (syncedStores acc))),
                          (''totalProducts'', JNum (of_nat (totalProducts acc)))])))"

text \<open>
  The stores at which the loop is left: the attempt throws and the \<^verbatim>\<open>name\<close> does not
  convert.
\<close>

definition catchThrows :: "(jval option \<Rightarrow> fetchResult) \<Rightarrow> obj \<Rightarrow> bool" where
  "catchThrows fetchProducts store =
     (case fetchProducts (getProp store ''url'') of
        FetchThrows msg \<Rightarrow> conversionThrows (getProp store ''name'')
      | _ \<Rightarrow> False)"

subsection \<open>POST /api/orders\<close>

text \<open>
  \<^verbatim>\<open>main-server.js\<close> 261-293, \<^verbatim>\<open>part_000\<close> 317-349, \<^verbatim>\<open>part_001\<close> 314-362. The clock
  is read for \<^verbatim>\<open>orderId\<close> (\<open>t1\<close>) and for \<^verbatim>\<open>createdAt\<close> (\<open>t2\<close>). \<open>Part001\<close> then
  posts the order to the store; whatever comes of that is logged and changes neither
  the state nor the answer, so it has no part in the function. A success is answered
  with status 201.
\<close>

definition orderValid :: "obj \<Rightarrow> bool" where
  "orderValid order =
     (\<not> (\<not> truthy (getProp order ''storeId'') \<or> \<not> truthy (getProp order ''items'')
         \<or> \<not> truthy (getProp order ''customer'')))"

definition orderId :: "int \<Rightarrow> string" where
  "orderId t = ''MAIN-ORD-'' @ (if t < 0 then ''-'' @ decimal (nat (- t)) else decimal (nat t))"

definition createOrder :: "int \<Rightarrow> int \<Rightarrow> obj \<Rightarrow> state \<Rightarrow> state \<times> (error + jval)" where
  "createOrder t1 t2 body st =
     (if \<not> orderValid body then (st, Inl ValidationError)
      else
        let o1 = setProp ''orderId'' (JStr (orderId t1)) body;
            o2 = setProp ''createdAt'' (JStr (toISOString t2)) o1;
            o3 = setProp ''status'' (JStr ''pending'') o2
        in case find (sameStoreId (getProp o3 ''storeId'')) (stores st) of
             None \<Rightarrow> (st, Inl NotFoundError)
           | Some store \<Rightarrow>
               let order = setPropOpt ''storeName'' (getProp store ''name'') o3
               in (st\<lparr>orders := orders st @ [order]\<rparr>,
                   Inr (JObj [(''success'', JBool True), (''order'', JObj order)])))"

subsection \<open>GET /api/orders\<close>

text \<open>
  \<^verbatim>\<open>main-server.js\<close> 296-303 answers with the file as it is. \<^verbatim>\<open>part_001\<close> 389-409
  filters by the query parameters and sorts. \<^verbatim>\<open>part_000\<close> has the same handler at
  438-458, but registers it after \<^verbatim>\<open>app.use('/api/*', ...)\<close> at 383-398, which answers
  every request under \<^verbatim>\<open>/api/\<close> that no earlier route has taken with status 404 and
  passes nothing on: a request for the order list never reaches the handler.

  A query parameter is \<open>None\<close> when the request does not give it, and else a string
  (an array or an object when the query string nests). The comparator is
  \<^verbatim>\<open>new Date(b.createdAt) - new Date(a.createdAt)\<close>: it throws when one of the two
  conversions does, and a \<^verbatim>\<open>NaN\<close> result counts as 0.
\<close>

definition createdTime :: "(jval \<Rightarrow> int option) \<Rightarrow> obj \<Rightarrow> thrown + int option" where
  "createdTime host order = newDate host (getProp order ''createdAt'')"

definition compareCreated :: "(jval \<Rightarrow> int option) \<Rightarrow> obj \<Rightarrow> obj \<Rightarrow> thrown + int" where
  "compareCreated host a b =
     (case createdTime host b of
        Inl e \<Rightarrow> Inl e
      | Inr tb \<Rightarrow>
          (case createdTime host a of
             Inl e \<Rightarrow> Inl e
           | Inr ta \<Rightarrow>
               Inr (case tb of
                      None \<Rightarrow> 0
                    | Some x \<Rightarrow> (case ta of None \<Rightarrow> 0 | Some y \<Rightarrow> x - y))))"

text \<open>The number that the sort is given by a call of the comparator that returns.\<close>

definition sortCompare :: "(jval \<Rightarrow> int option) \<Rightarrow> obj \<Rightarrow> obj \<Rightarrow> int" where
  "sortCompare host a b = (case compareCreated host a b of Inl e \<Rightarrow> 0 | Inr n \<Rightarrow> n)"

fun insertWith :: "('a \<Rightarrow> 'a \<Rightarrow> int) \<Rightarrow> 'a \<Rightarrow> 'a list \<Rightarrow> 'a list" where
  "insertWith cmp x [] = [x]"
| "insertWith cmp x (y # ys) = (if cmp x y \<le> 0 then x # y # ys else y # insertWith cmp x ys)"

definition sortWith :: "('a \<Rightarrow> 'a \<Rightarrow> int) \<Rightarrow> 'a list \<Rightarrow> 'a list" where
  "sortWith cmp xs = foldr (insertWith cmp) xs []"

text \<open>
  \<^verbatim>\<open>orders.sort(...)\<close>. A list of fewer than two orders is left as it is, without a
  call of the comparator. In a longer list every order is compared with another at
  least once, so the sort throws when the \<^verbatim>\<open>createdAt\<close> of one of them does not
  convert. \<^verbatim>\<open>Array.prototype.sort\<close> is a stable sort: when the comparator is a
  consistent order, which it is when every \<^verbatim>\<open>createdAt\<close> is a valid date, the result
  is the one that stable insertion computes. With an invalid date among them
  ECMAScript leaves the order to the implementation: it is then what the parameter
  \<open>engine\<close> makes of the list.
\<close>

definition sortOrders ::
  "(jval \<Rightarrow> int option) \<Rightarrow> (obj list \<Rightarrow> obj list) \<Rightarrow> obj list \<Rightarrow> thrown + obj list" where
  "sortOrders host engine os =
     (if length os \<le> 1 then Inr os
      else if list_ex (\<lambda>order. createdTime host order = Inl TypeError) os then Inl TypeError
      else if list_all (\<lambda>order. createdTime host order \<noteq> Inr None) os
        then Inr (sortWith (sortCompare host) os)
      else Inr (engine os))"

definition filterOrders :: "jval option \<Rightarrow> jval option \<Rightarrow> obj list \<Rightarrow> obj list" where
  "filterOrders storeId status os =
     (let os1 = (if truthy storeId then filter (\<lambda>o'. strictEq (getProp o' ''storeId'') storeId) os
                 else os);
          os2 = (if truthy status \<and> \<not> strictEq status (Some (JStr ''all''))
                 then filter (\<lambda>o'. strictEq (getProp o' ''status'') status) os1 else os1)
      in os2)"

text \<open>
  What the specification asks of the answer, in its words: the orders sorted by
  \<^verbatim>\<open>createdAt\<close> descending, newest first.
\<close>

definition newestFirst :: "(jval \<Rightarrow> int option) \<Rightarrow> obj list \<Rightarrow> bool" where
  "newestFirst host os =
     sorted_wrt (\<lambda>a b. \<exists>ta tb. createdTime host a = Inr (Some ta)
                          \<and> createdTime host b = Inr (Some tb) \<and> tb \<le> ta) os"

definition listOrders ::
  "variant \<Rightarrow> (jval \<Rightarrow> int option) \<Rightarrow> (obj list \<Rightarrow> obj list) \<Rightarrow> jval option \<Rightarrow> jval option \<Rightarrow> state
     \<Rightarrow> state \<times> (error + jval)" where
  "listOrders v host engine storeId status st =
     (case v of
        MainServer \<Rightarrow> (st, Inr (JArr (map JObj (orders st))))
      | Part000 \<Rightarrow> (st, Inl NotFoundError)
      | Part001 \<Rightarrow>
          (case sortOrders host engine (filterOrders storeId status (orders st)) of
             Inl e \<Rightarrow> (st, Inl UnexpectedError)
           | Inr os \<Rightarrow> (st, Inr (JArr (map JObj os)))))"

section \<open>Requests and states of the examples\<close>

text \<open>
  \<open>noHost\<close> is a host whose \<^verbatim>\<open>Date.parse\<close> reads nothing but what \<^verbatim>\<open>toISOString\<close>
  writes. \<open>shopA\<close> and \<open>shopB\<close> are registration bodies of two stores; \<open>t0\<close> is
  2023-11-14T22:13:20.000Z.
\<close>

definition noHost :: "jval \<Rightarrow> int option" where
  "noHost x = None"

text \<open>An engine whose sort leaves a list with an invalid date as it is.\<close>

definition noEngine :: "obj list \<Rightarrow> obj list" where
  "noEngine os = os"

definition emptyState :: state where
  "emptyState = \<lparr>stores = [], products = [], orders = []\<rparr>"

definition t0 :: int where
  "t0 = 1700000000000"

definition minute :: int where
  "minute = 60000"

definition shopA :: obj where
  "shopA = [(''storeId'', JStr ''A''), (''name'', JStr ''Shop A''), (''url'', JStr ''http://a.example'')]"

definition shopB :: obj where
  "shopB = [(''storeId'', JStr ''B''), (''name'', JStr ''Shop B''), (''url'', JStr ''http://b.example'')]"

definition probeUp :: "jval option \<Rightarrow> probeResult" where
  "probeUp url = ProbeOk"

text \<open>\<open>registeredA v\<close>: store A has registered with the server \<open>v\<close> at \<open>t0\<close>.\<close>

definition registeredA :: "variant \<Rightarrow> state" where
  "registeredA v = fst (register v probeUp t0 t0 shopA emptyState)"

text \<open>A stores file with a record that has no \<^verbatim>\<open>lastSeen\<close> and one whose \<^verbatim>\<open>lastSeen\<close> is no date.\<close>

definition undatedState :: state where
  "undatedState =
     \<lparr>stores = [shopA, setProp ''lastSeen'' (JStr ''yesterday'') shopB], products = [], orders = []\<rparr>"

text \<open>
  A stores file with a record last seen one millisecond after the earliest time value
  there is; \<open>latest\<close> is the latest one.
\<close>

definition latest :: int where
  "latest = 8640000000000000"

definition ancientState :: state where
  "ancientState = \<lparr>stores = [setProp ''lastSeen'' (JNum (of_int (1 - latest))) shopA],
                    products = [], orders = []\<rparr>"

text \<open>A stores file with a record whose \<^verbatim>\<open>lastSeen\<close> is the object \<^verbatim>\<open>{"toString": null}\<close>.\<close>

definition unconvertibleState :: state where
  "unconvertibleState =
     \<lparr>stores = [shopA, setProp ''lastSeen'' (JObj [(''toString'', JNull)]) shopB],
      products = [], orders = []\<rparr>"

text \<open>
  \<open>phoneState\<close>: store A has registered with \<^verbatim>\<open>part_000\<close> at \<open>t0\<close>, with a
  \<^verbatim>\<open>phone\<close> field of its own in the body.
\<close>

definition phoneState :: state where
  "phoneState = fst (register Part000 probeUp t0 t0 (shopA @ [(''phone'', JStr ''555-0100'')]) emptyState)"

text \<open>
  Both stores have registered and are stored as online. Store A answers a request
  for its products with two records tagged with its id; every other request fails to
  connect.
\<close>

definition bothRegistered :: "variant \<Rightarrow> state" where
  "bothRegistered v = fst (register v probeUp t0 t0 shopB (registeredA v))"

definition apple :: obj where
  "apple = [(''storeId'', JStr ''A''), (''name'', JStr ''Apple''), (''category'', JStr ''Fruit'')]"

definition pear :: obj where
  "pear = [(''storeId'', JStr ''A''), (''name'', JStr ''Pear''), (''category'', JStr ''Fruit'')]"

definition remote :: "jval option \<Rightarrow> fetchResult" where
  "remote url =
     (if url = Some (JStr ''http://a.example'') then FetchOk [apple, pear]
      else FetchThrows ''connect ECONNREFUSED'')"

text \<open>
  A registration body for store B whose \<^verbatim>\<open>name\<close> is the object
  \<^verbatim>\<open>{"toString": null}\<close>, and the state after this store and then store A have
  registered with \<^verbatim>\<open>part_000\<close>.
\<close>

definition shopOdd :: obj where
  "shopOdd = [(''storeId'', JStr ''B''), (''name'', JObj [(''toString'', JNull)]),
              (''url'', JStr ''http://b.example'')]"

definition oddFirst :: state where
  "oddFirst =
     fst (register Part000 probeUp t0 t0 shopA (fst (register Part000 probeUp t0 t0 shopOdd emptyState)))"

text \<open>
  Product records that carry no \<^verbatim>\<open>storeId\<close>, and a store that answers with the one
  and, at a later sync, with the other.
\<close>

definition plum :: obj where
  "plum = [(''name'', JStr ''Plum''), (''category'', JStr ''Fruit'')]"

definition fig :: obj where
  "fig = [(''name'', JStr ''Fig''), (''category'', JStr ''Fruit'')]"

definition shelfPlum :: "jval option \<Rightarrow> fetchResult" where
  "shelfPlum url = FetchOk [plum]"

definition shelfFig :: "jval option \<Rightarrow> fetchResult" where
  "shelfFig url = FetchOk [fig]"

text \<open>Order bodies for a store that is not registered: one complete, one without items.\<close>

definition ghostOrder :: obj where
  "ghostOrder =
     [(''storeId'', JStr ''ghost''),
      (''items'', JArr [JObj [(''name'', JStr ''Apple''), (''quantity'', JNum 2)]]),
      (''customer'', JObj [(''name'', JStr ''Ann'')])]"

definition ghostOrderNoItems :: obj where
  "ghostOrderNoItems = [(''storeId'', JStr ''ghost''), (''customer'', JObj [(''name'', JStr ''Ann'')])]"

text \<open>
  Three orders for store A, placed at \<open>t0\<close>, a minute later and two minutes later,
  on the server \<open>v\<close>.
\<close>

definition orderA :: obj where
  "orderA =
     [(''storeId'', JStr ''A''),
      (''items'', JArr [JObj [(''name'', JStr ''Apple''), (''quantity'', JNum 2)]]),
      (''customer'', JObj [(''name'', JStr ''Ann'')])]"

definition threeOrders :: "variant \<Rightarrow> state" where
  "threeOrders v =
     fst (createOrder (t0 + 2 * minute) (t0 + 2 * minute) orderA
       (fst (createOrder (t0 + minute) (t0 + minute) orderA
         (fst (createOrder t0 t0 orderA (registeredA v))))))"

definition placed :: "string \<Rightarrow> string \<Rightarrow> obj" where
  "placed ident created =
     orderA @ [(''orderId'', JStr ident), (''createdAt'', JStr created),
               (''status'', JStr ''pending''), (''storeName'', JStr ''Shop A'')]"

text \<open>A registration body that names neither a \<^verbatim>\<open>storeId\<close> nor a \<^verbatim>\<open>name\<close>.\<close>

definition anonymous :: obj where
  "anonymous = [(''url'', JStr ''http://c.example'')]"

text \<open>A manual addition for store A that gives no \<^verbatim>\<open>url\<close>.\<close>

definition shopANoUrl :: obj where
  "shopANoUrl = [(''storeId'', JStr ''A''), (''name'', JStr ''Shop A'')]"

section \<open>Facts about the JavaScript operations\<close>

lemmas iso_defs = toISOString_def isoTime_def civil_from_days_def civilOfEra_def civilOfYear_def
  civilOfDay_def civilOfMonth_def yearOfEra_def yearString_def digits2_def digits3_def
  digits4_def digits6_def digitChar_def

lemmas parse_defs = isoCandidate_def numAt_def days_from_civil_def daysOfYear_def

lemma toISOString_t0: "toISOString t0 = ''2023-11-14T22:13:20.000Z''"
  by (simp add: t0_def iso_defs)

lemma Date_parse_t0: "Date_parse host ''2023-11-14T22:13:20.000Z'' = Some t0"
proof -
  have "isoCandidate ''2023-11-14T22:13:20.000Z'' = t0"
    by (simp add: t0_def parse_defs)
  then show ?thesis
    by (simp add: Date_parse_def toISOString_t0)
qed

lemma Date_parse_yesterday: "Date_parse noHost ''yesterday'' = None"
  by (simp add: Date_parse_def noHost_def parse_defs iso_defs)

lemma getProp_setProp:
  "getProp (setProp k v ob) k' = (if k' = k then Some v else getProp ob k')"
  by (simp add: getProp_def setProp_def update_conv')

lemma strictEq_JStr: "strictEq x (Some (JStr s)) = (x = Some (JStr s))"
  by (cases "(x, Some (JStr s))" rule: strictEq.cases) auto

subsection \<open>The recomputed status\<close>

lemma newDate_throws: "(newDate host x = Inl e) = conversionThrows x"
proof (cases x)
  case None
  then show ?thesis by (simp add: conversionThrows_def)
next
  case (Some a)
  then show ?thesis by (cases a; cases e) (simp_all add: conversionThrows_def)
qed

lemma numLess_minutes:
  "numLess (Some (of_int (roundDiff d) / 60000)) 10 = (d < 600000)"
  "numLess (Some (of_int (roundDiff d) / 60000)) 5 = (d < 300000)"
  by (auto simp: numLess_def roundDiff_def field_simps)

lemma status_refreshStatus:
  assumes "\<not> conversionThrows (getProp s ''lastSeen'')"
  shows "\<exists>s'. refreshStatus v host now s = Inr s'
           \<and> getProp s' ''status'' =
               Some (JStr (if (case newDate host (getProp s ''lastSeen'') of
                                 Inr (Some lastSeen) \<Rightarrow>
                                   now - lastSeen < (if v = Part001 then 5 else 10) * minute
                               | _ \<Rightarrow> False)
                           then ''online'' else ''offline''))"
proof (cases "newDate host (getProp s ''lastSeen'')")
  case (Inl e)
  with assms show ?thesis
    by (simp add: newDate_throws)
next
  case (Inr t)
  show ?thesis
  proof (cases t)
    case None
    with Inr show ?thesis
      by (cases v) (simp_all add: refreshStatus_def minutesAgo_def getProp_setProp numLess_def)
  next
    case (Some lastSeen)
    with Inr have "minutesAgo host now s = Inr (Some (of_int (roundDiff (now - lastSeen)) / 60000))"
      by (simp add: minutesAgo_def)
    then show ?thesis using Inr Some
      by (cases v)
         (simp_all add: refreshStatus_def getProp_setProp numLess_minutes minute_def Let_def)
  qed
qed

lemma forEachStore_Inr:
  assumes "\<forall>s \<in> set xs. \<exists>y. f s = Inr y"
  shows "forEachStore f xs = Inr (map (\<lambda>s. projr (f s)) xs)"
  using assms by (induction xs) auto

lemma forEachStore_Inl:
  assumes "s \<in> set xs" and "f s = Inl e"
  shows "\<exists>e'. forEachStore f xs = Inl e'"
  using assms by (induction xs) (auto split: sum.splits)

lemma listStores_converts:
  assumes "\<forall>s \<in> set (stores st). \<not> conversionThrows (getProp s ''lastSeen'')"
  shows "listStores v host now st =
           (st\<lparr>stores := map (\<lambda>s. projr (refreshStatus v host now s)) (stores st)\<rparr>,
            Inr (JArr (map JObj (map (\<lambda>s. projr (refreshStatus v host now s)) (stores st)))))"
proof -
  have "\<forall>s \<in> set (stores st). \<exists>y. refreshStatus v host now s = Inr y"
    using assms status_refreshStatus by blast
  then show ?thesis
    by (simp add: listStores_def forEachStore_Inr)
qed

lemma listStores_throws:
  assumes "s \<in> set (stores st)" and "conversionThrows (getProp s ''lastSeen'')"
  shows "listStores v host now st = (st, Inl UnexpectedError)"
proof -
  from assms(2) have "newDate host (getProp s ''lastSeen'') = Inl TypeError"
    by (simp add: newDate_throws)
  then have "refreshStatus v host now s = Inl TypeError"
    by (simp add: refreshStatus_def minutesAgo_def)
  with assms(1) obtain e' where "forEachStore (refreshStatus v host now) (stores st) = Inl e'"
    using forEachStore_Inl by blast
  then show ?thesis
    by (simp add: listStores_def)
qed

lemma status_listStores:
  assumes "i < length (stores st)"
    and "\<forall>s \<in> set (stores st). \<not> conversionThrows (getProp s ''lastSeen'')"
  shows "getProp (stores (fst (listStores v host now st)) ! i) ''status'' =
           Some (JStr (if (case newDate host (getProp (stores st ! i) ''lastSeen'') of
                             Inr (Some lastSeen) \<Rightarrow>
                               now - lastSeen < (if v = Part001 then 5 else 10) * minute
                           | _ \<Rightarrow> False)
                       then ''online'' else ''offline''))"
proof -
  from assms have "\<not> conversionThrows (getProp (stores st ! i) ''lastSeen'')"
    by simp
  from status_refreshStatus [OF this, of v host now]
  have "getProp (projr (refreshStatus v host now (stores st ! i))) ''status'' =
          Some (JStr (if (case newDate host (getProp (stores st ! i) ''lastSeen'') of
                            Inr (Some lastSeen) \<Rightarrow>
                              now - lastSeen < (if v = Part001 then 5 else 10) * minute
                          | _ \<Rightarrow> False)
                      then ''online'' else ''offline''))"
    by auto
  with assms(1) show ?thesis
    by (simp add: listStores_converts [OF assms(2)])
qed

text \<open>
  Where the difference of the two time values is no double, the minutes that
  \<^verbatim>\<open>part_000\<close> stores are those of the rounded difference: from the latest time value
  back to one millisecond after the earliest it is 17279999999999999 ms, which the
  subtraction rounds to 17280000000000000.
\<close>

lemma lastSeenMinutes_rounded:
  "getProp (stores (fst (listStores Part000 noHost latest ancientState)) ! 0) ''lastSeenMinutes''
     = Some (JNum 288000000000)
   \<and> \<lfloor>rat_of_int (latest - (1 - latest)) / 60000\<rfloor> = 287999999999
   \<and> getProp (stores (fst (listStores Part000 noHost latest ancientState)) ! 0) ''status''
     = Some (JStr ''offline'')"
proof -
  have seen: "newDate noHost (getProp (setProp ''lastSeen'' (JNum (of_int (1 - latest))) shopA) ''lastSeen'')
                = Inr (Some (1 - latest))"
    by (simp add: getProp_setProp timeClip_def latest_def)
  have "minutesAgo noHost latest (setProp ''lastSeen'' (JNum (of_int (1 - latest))) shopA)
          = Inr (Some 288000000000)"
    unfolding minutesAgo_def seen by (simp add: roundDiff_def latest_def)
  then have "refreshStatus Part000 noHost latest (setProp ''lastSeen'' (JNum (of_int (1 - latest))) shopA)
          = Inr (setProp ''lastSeenMinutes'' (JNum 288000000000)
                  (setProp ''status'' (JStr ''offline'')
                    (setProp ''lastSeen'' (JNum (of_int (1 - latest))) shopA)))"
    by (simp add: refreshStatus_def numLess_def)
  then have "stores (fst (listStores Part000 noHost latest ancientState))
          = [setProp ''lastSeenMinutes'' (JNum 288000000000)
               (setProp ''status'' (JStr ''offline'')
                 (setProp ''lastSeen'' (JNum (of_int (1 - latest))) shopA))]"
    by (simp add: listStores_def ancientState_def)
  moreover have "\<lfloor>rat_of_int (latest - (1 - latest)) / 60000\<rfloor> = 287999999999"
    by (simp add: latest_def floor_eq_iff)
  ultimately show ?thesis
    by (simp add: getProp_setProp)
qed

lemma stores_registeredA:
  "stores (registeredA v) =
     [[(''storeId'', JStr ''A''), (''name'', JStr ''Shop A''), (''url'', JStr ''http://a.example''),
       (''lastSeen'', JStr ''2023-11-14T22:13:20.000Z''), (''status'', JStr ''online'')]
      @ (if v = Part001 then [] else [(''registeredAt'', JStr ''2023-11-14T22:13:20.000Z'')])]"
  by (cases v)
     (simp_all add: registeredA_def register_def registerValid_def stampStore_def mergeStore_def
        shopA_def emptyState_def getProp_def setProp_def orElse_def toISOString_t0 Let_def)

text \<open>
  C5. For every store record, the status that the store list recomputes is
  \<^verbatim>\<open>online\<close> exactly when \<^verbatim>\<open>now - lastSeen\<close> is strictly below the threshold, ten
  minutes in \<^verbatim>\<open>main-server.js\<close> and \<^verbatim>\<open>part_000\<close> and five in \<^verbatim>\<open>part_001\<close>, and
  \<^verbatim>\<open>offline\<close> otherwise (also when \<^verbatim>\<open>lastSeen\<close> is no date); the answer is the list
  that was written back. This is so whenever the list recomputes at all, that is,
  when \<^verbatim>\<open>new Date(store.lastSeen)\<close> throws for no record of the file.
\<close>

theorem listStores_status:
  assumes "i < length (stores st)"
    and "\<forall>s \<in> set (stores st). \<not> conversionThrows (getProp s ''lastSeen'')"
  shows "getProp (stores (fst (listStores v host now st)) ! i) ''status'' =
           Some (JStr (if (case newDate host (getProp (stores st ! i) ''lastSeen'') of
                             Inr (Some lastSeen) \<Rightarrow>
                               now - lastSeen < (if v = Part001 then 5 else 10) * minute
                           | _ \<Rightarrow> False)
                       then ''online'' else ''offline''))
         \<and> length (stores (fst (listStores v host now st))) = length (stores st)
         \<and> snd (listStores v host now st)
             = Inr (JArr (map JObj (stores (fst (listStores v host now st)))))"
proof -
  have "snd (listStores v host now st)
          = Inr (JArr (map JObj (stores (fst (listStores v host now st)))))"
    and "length (stores (fst (listStores v host now st))) = length (stores st)"
    by (simp_all add: listStores_converts [OF assms(2)])
  with status_listStores [OF assms] show ?thesis
    by simp
qed

text \<open>
  Nine minutes after the registration store A is online and eleven minutes after it is
  offline; at exactly ten minutes it is offline. In \<^verbatim>\<open>part_001\<close> the boundary is at
  five minutes.
\<close>

theorem listStores_status_witness:
  "getProp (stores (fst (listStores MainServer noHost (t0 + 9 * minute) (registeredA MainServer))) ! 0)
       ''status'' = Some (JStr ''online'')
   \<and> getProp (stores (fst (listStores MainServer noHost (t0 + 11 * minute) (registeredA MainServer))) ! 0)
       ''status'' = Some (JStr ''offline'')
   \<and> getProp (stores (fst (listStores MainServer noHost (t0 + 10 * minute) (registeredA MainServer))) ! 0)
       ''status'' = Some (JStr ''offline'')
   \<and> getProp (stores (fst (listStores Part001 noHost (t0 + 5 * minute - 1) (registeredA Part001))) ! 0)
       ''status'' = Some (JStr ''online'')
   \<and> getProp (stores (fst (listStores Part001 noHost (t0 + 5 * minute) (registeredA Part001))) ! 0)
       ''status'' = Some (JStr ''offline'')"
proof -
  have len: "0 < length (stores (registeredA v))" for v
    by (simp add: stores_registeredA)
  have conv: "\<forall>s \<in> set (stores (registeredA v)). \<not> conversionThrows (getProp s ''lastSeen'')" for v
    by (simp add: stores_registeredA getProp_def conversionThrows_def)
  have seen: "newDate noHost (getProp (stores (registeredA v) ! 0) ''lastSeen'') = Inr (Some t0)" for v
    by (simp add: stores_registeredA getProp_def Date_parse_t0)
  show ?thesis
    using listStores_status [where st = "registeredA MainServer" and i = 0 and v = MainServer
        and host = noHost and now = "t0 + 9 * minute", OF len conv]
      listStores_status [where st = "registeredA MainServer" and i = 0 and v = MainServer
        and host = noHost and now = "t0 + 11 * minute", OF len conv]
      listStores_status [where st = "registeredA MainServer" and i = 0 and v = MainServer
        and host = noHost and now = "t0 + 10 * minute", OF len conv]
      listStores_status [where st = "registeredA Part001" and i = 0 and v = Part001
        and host = noHost and now = "t0 + 5 * minute - 1", OF len conv]
      listStores_status [where st = "registeredA Part001" and i = 0 and v = Part001
        and host = noHost and now = "t0 + 5 * minute", OF len conv]
    by (simp add: seen minute_def)
qed

text \<open>
  C10 as the code has it. A store record whose \<^verbatim>\<open>lastSeen\<close> is missing, or converts
  to an Invalid Date, is listed as \<^verbatim>\<open>offline\<close>: the elapsed minutes are \<^verbatim>\<open>NaN\<close>, the
  comparison with the threshold is false, and the handler answers with the list. This
  is so when \<^verbatim>\<open>new Date(store.lastSeen)\<close> throws for no record of the file; when it
  throws for one of them, nothing is written and the answer is the error with status
  500.
\<close>

theorem listStores_invalid_lastSeen:
  assumes "i < length (stores st)"
    and "getProp (stores st ! i) ''lastSeen'' = None
         \<or> newDate host (getProp (stores st ! i) ''lastSeen'') = Inr None"
  shows "if list_ex (\<lambda>s. conversionThrows (getProp s ''lastSeen'')) (stores st)
         then listStores v host now st = (st, Inl UnexpectedError)
              \<and> httpStatus UnexpectedError = 500
         else minutesAgo host now (stores st ! i) = Inr None
              \<and> \<not> numLess None (threshold v)
              \<and> getProp (stores (fst (listStores v host now st)) ! i) ''status''
                    = Some (JStr ''offline'')
              \<and> snd (listStores v host now st)
                    = Inr (JArr (map JObj (stores (fst (listStores v host now st)))))"
proof (cases "list_ex (\<lambda>s. conversionThrows (getProp s ''lastSeen'')) (stores st)")
  case True
  then obtain s where "s \<in> set (stores st)" "conversionThrows (getProp s ''lastSeen'')"
    by (auto simp: list_ex_iff)
  then have "listStores v host now st = (st, Inl UnexpectedError)"
    by (rule listStores_throws)
  with True show ?thesis
    by simp
next
  case False
  then have conv: "\<forall>s \<in> set (stores st). \<not> conversionThrows (getProp s ''lastSeen'')"
    by (simp add: list_ex_iff)
  from assms(2) have invalid: "newDate host (getProp (stores st ! i) ''lastSeen'') = Inr None"
    by auto
  then have nan: "minutesAgo host now (stores st ! i) = Inr None"
    by (simp add: minutesAgo_def)
  have "snd (listStores v host now st)
          = Inr (JArr (map JObj (stores (fst (listStores v host now st)))))"
    by (simp add: listStores_converts [OF conv])
  with False nan invalid status_listStores [OF assms(1) conv, of v host now] show ?thesis
    by (simp add: numLess_def)
qed

text \<open>
  A record without \<^verbatim>\<open>lastSeen\<close> and one whose \<^verbatim>\<open>lastSeen\<close> is the text
  \<^verbatim>\<open>yesterday\<close> are both listed as offline, and the list is answered.
\<close>

theorem listStores_invalid_lastSeen_witness:
  "getProp (stores (fst (listStores Part000 noHost t0 undatedState)) ! 0) ''status''
     = Some (JStr ''offline'')
   \<and> getProp (stores (fst (listStores Part000 noHost t0 undatedState)) ! 1) ''status''
     = Some (JStr ''offline'')
   \<and> snd (listStores Part000 noHost t0 undatedState)
     = Inr (JArr (map JObj (stores (fst (listStores Part000 noHost t0 undatedState)))))"
proof -
  have absent: "getProp (stores undatedState ! 0) ''lastSeen'' = None"
    by (simp add: undatedState_def shopA_def getProp_def)
  have nodate: "newDate noHost (getProp (stores undatedState ! 1) ''lastSeen'') = Inr None"
    by (simp add: undatedState_def getProp_setProp Date_parse_yesterday)
  have len: "0 < length (stores undatedState)" "1 < length (stores undatedState)"
    by (simp_all add: undatedState_def)
  have conv: "\<not> list_ex (\<lambda>s. conversionThrows (getProp s ''lastSeen'')) (stores undatedState)"
    by (simp add: undatedState_def shopA_def shopB_def getProp_def setProp_def conversionThrows_def)
  show ?thesis
    using listStores_invalid_lastSeen [OF len(1), where host = noHost and v = Part000 and now = t0]
      listStores_invalid_lastSeen [OF len(2), where host = noHost and v = Part000 and now = t0]
      absent nodate conv
    by simp
qed

text \<open>
  The object \<^verbatim>\<open>{"toString": null}\<close> is no timestamp, and \<^verbatim>\<open>new Date\<close> throws on
  it. With a record that has it as \<^verbatim>\<open>lastSeen\<close> in the file, the store list answers
  with status 500, no record is classified and nothing is written.
\<close>

theorem listStores_unconvertible_lastSeen:
  "getProp (stores unconvertibleState ! 1) ''lastSeen'' = Some (JObj [(''toString'', JNull)])
   \<and> newDate noHost (getProp (stores unconvertibleState ! 1) ''lastSeen'') = Inl TypeError
   \<and> listStores Part000 noHost t0 unconvertibleState = (unconvertibleState, Inl UnexpectedError)
   \<and> listStores MainServer noHost t0 unconvertibleState = (unconvertibleState, Inl UnexpectedError)
   \<and> listStores Part001 noHost t0 unconvertibleState = (unconvertibleState, Inl UnexpectedError)
   \<and> httpStatus UnexpectedError = 500
   \<and> getProp (stores (fst (listStores Part000 noHost t0 unconvertibleState)) ! 1) ''status'' = None"
proof -
  have odd: "getProp (stores unconvertibleState ! 1) ''lastSeen'' = Some (JObj [(''toString'', JNull)])"
    by (simp add: unconvertibleState_def getProp_setProp)
  have mem: "stores unconvertibleState ! 1 \<in> set (stores unconvertibleState)"
    by (simp add: unconvertibleState_def)
  have throws: "conversionThrows (getProp (stores unconvertibleState ! 1) ''lastSeen'')"
    using odd by (simp add: conversionThrows_def)
  have answer: "listStores v noHost t0 unconvertibleState = (unconvertibleState, Inl UnexpectedError)"
    for v
    using mem throws by (rule listStores_throws)
  have "getProp (stores unconvertibleState ! 1) ''status'' = None"
    by (simp add: unconvertibleState_def shopB_def getProp_def setProp_def)
  with odd answer show ?thesis
    by simp
qed

lemma findIndex_Some:
  "findIndex p xs = Some i \<Longrightarrow> i < length xs \<and> p (xs ! i) \<and> (\<forall>j<i. \<not> p (xs ! j))"
proof (induction xs arbitrary: i)
  case Nil
  then show ?case by simp
next
  case (Cons x xs)
  show ?case
  proof (cases "p x")
    case True
    with Cons.prems show ?thesis by simp
  next
    case False
    with Cons.prems obtain i' where i': "findIndex p xs = Some i'" "i = Suc i'"
      by (auto split: option.splits)
    from Cons.IH [OF i'(1)] False i'(2) show ?thesis
      by (auto simp: nth_Cons split: nat.splits)
  qed
qed

lemma getProp_literal_Nil: "getProp (literal []) k = None"
  by (simp add: literal_def getProp_def)

lemma getProp_literal_Cons:
  "getProp (literal ((k, x) # kxs)) k' =
     (if k' = k then (case x of Some a \<Rightarrow> Some a | None \<Rightarrow> getProp (literal kxs) k')
      else getProp (literal kxs) k')"
  by (cases x) (simp_all add: literal_def getProp_def)

lemma getProp_spread:
  "getProp (spread a b) k = (case map_of (rev b) k of Some v \<Rightarrow> Some v | None \<Rightarrow> getProp a k)"
proof (induction b arbitrary: a)
  case Nil
  then show ?case by (simp add: spread_def)
next
  case (Cons kv b)
  obtain k0 v0 where kv: "kv = (k0, v0)" by (cases kv)
  have "spread a (kv # b) = spread (setProp k0 v0 a) b"
    by (simp add: spread_def kv)
  then show ?case
    by (simp add: Cons.IH getProp_setProp kv map_add_def split: option.splits)
qed

lemma getProp_spread_absent:
  assumes "getProp b k = None"
  shows "getProp (spread a b) k = getProp a k"
proof -
  from assms have "k \<notin> fst ` set b"
    by (simp add: getProp_def map_of_eq_None_iff)
  then have "map_of (rev b) k = None"
    by (simp add: map_of_eq_None_iff)
  then show ?thesis
    by (simp add: getProp_spread)
qed

lemma storeId_stampStore: "getProp (stampStore v t1 t2 body) ''storeId'' = getProp body ''storeId''"
  by (cases v) (simp_all add: stampStore_def getProp_setProp Let_def)

lemma truthy_Some: "truthy x \<Longrightarrow> \<exists>a. x = Some a"
  by (cases x) auto

lemma storeId_manualStore:
  "manualValid v body \<Longrightarrow> getProp (manualStore v now body) ''storeId'' = getProp body ''storeId''"
  by (cases v) (auto simp: manualValid_def manualStore_def getProp_literal_Cons dest: truthy_Some)

lemma keys_manualStore:
  assumes "k \<notin> {''storeId'', ''name'', ''location'', ''url'', ''lastSeen'', ''status'', ''addedManually''}"
  shows "getProp (manualStore v now body) k = None"
  using assms
  by (cases v) (simp_all add: manualStore_def getProp_literal_Cons getProp_literal_Nil)

subsection \<open>Replacing and merging a store record\<close>

text \<open>
  C6 as the code has it. When the stores file has a record whose \<^verbatim>\<open>storeId\<close> is that
  of the request, a \<^verbatim>\<open>manual-add\<close> that passes the checks of the server (\<^verbatim>\<open>storeId\<close>
  and \<^verbatim>\<open>name\<close>, and in \<^verbatim>\<open>part_000\<close> and \<^verbatim>\<open>part_001\<close> also \<^verbatim>\<open>url\<close>) puts the freshly
  built record in the place of the first such record: it has no fields but
  \<^verbatim>\<open>storeId\<close>, \<^verbatim>\<open>name\<close>, \<^verbatim>\<open>location\<close>, \<^verbatim>\<open>url\<close>, \<^verbatim>\<open>lastSeen\<close>, \<^verbatim>\<open>status\<close> (and
  \<^verbatim>\<open>addedManually\<close> in \<^verbatim>\<open>part_000\<close>), so no other field of the old record survives. A
  \<^verbatim>\<open>manual-add\<close> that fails the checks is refused and changes nothing. \<^verbatim>\<open>register\<close>
  with the same body keeps every field of the old record that the body and the
  stamps do not set.
\<close>

theorem manualAdd_replaces:
  assumes "findIndex (sameStoreId (getProp body ''storeId'')) (stores st) = Some i"
  shows "i < length (stores st)
         \<and> (manualValid v body \<longrightarrow>
              stores (fst (manualAdd v now body st)) = (stores st)[i := manualStore v now body]
              \<and> stores (fst (manualAdd v now body st)) ! i = manualStore v now body
              \<and> (\<forall>k. k \<notin> {''storeId'', ''name'', ''location'', ''url'', ''lastSeen'', ''status'',
                             ''addedManually''}
                      \<longrightarrow> getProp (stores (fst (manualAdd v now body st)) ! i) k = None))
         \<and> (\<not> manualValid v body \<longrightarrow> manualAdd v now body st = (st, Inl ValidationError))
         \<and> (registerValid v body \<longrightarrow>
              (\<forall>k. getProp (stampStore v t1 t2 body) k = None \<longrightarrow>
                   getProp (stores (fst (register v probe t1 t2 body st)) ! i) k
                     = getProp (stores st ! i) k))"
proof -
  from findIndex_Some [OF assms] have i: "i < length (stores st)"
    by simp
  have new: "stores (fst (manualAdd v now body st)) = (stores st)[i := manualStore v now body]"
    if "manualValid v body"
    using that assms by (simp add: manualAdd_def replaceStore_def storeId_manualStore Let_def)
  have refused: "manualAdd v now body st = (st, Inl ValidationError)" if "\<not> manualValid v body"
    using that by (simp add: manualAdd_def)
  have merged: "stores (fst (register v probe t1 t2 body st))
                  = (stores st)[i := spread (stores st ! i) (stampStore v t1 t2 body)]"
    if "registerValid v body"
    using that assms
    by (cases v) (simp_all add: register_def mergeStore_def storeId_stampStore Let_def)
  show ?thesis
    using i new refused merged by (simp add: keys_manualStore getProp_spread_absent)
qed

lemma stores_phoneState:
  "stores phoneState =
     [[(''storeId'', JStr ''A''), (''name'', JStr ''Shop A''), (''url'', JStr ''http://a.example''),
       (''phone'', JStr ''555-0100''),
       (''lastSeen'', JStr ''2023-11-14T22:13:20.000Z''), (''status'', JStr ''online''),
       (''registeredAt'', JStr ''2023-11-14T22:13:20.000Z'')]]"
  by (simp add: phoneState_def register_def registerValid_def stampStore_def mergeStore_def
      shopA_def emptyState_def getProp_def setProp_def orElse_def toISOString_t0 Let_def)

theorem manualAdd_replaces_witness:
  "getProp (stores phoneState ! 0) ''phone'' = Some (JStr ''555-0100'')
   \<and> getProp (stores (fst (manualAdd Part000 (t0 + minute) shopA phoneState)) ! 0) ''phone'' = None
   \<and> getProp (stores (fst (manualAdd Part000 (t0 + minute) shopA phoneState)) ! 0) ''registeredAt'' = None
   \<and> getProp (stores (fst (register Part000 probeUp (t0 + minute) (t0 + minute) shopA phoneState)) ! 0) ''phone''
       = Some (JStr ''555-0100'')"
proof -
  have valid: "manualValid Part000 shopA" "registerValid Part000 shopA"
    by (simp_all add: manualValid_def registerValid_def shopA_def getProp_def)
  have found: "findIndex (sameStoreId (getProp shopA ''storeId'')) (stores phoneState) = Some 0"
    by (simp add: stores_phoneState sameStoreId_def shopA_def getProp_def)
  have nophone: "getProp (stampStore Part000 (t0 + minute) (t0 + minute) shopA) ''phone'' = None"
    by (simp add: stampStore_def getProp_setProp shopA_def Let_def, simp add: getProp_def)
  have old: "getProp (stores phoneState ! 0) ''phone'' = Some (JStr ''555-0100'')"
    by (simp add: stores_phoneState getProp_def)
  note replaced = manualAdd_replaces [OF found, where v = Part000 and now = "t0 + minute"
      and probe = probeUp and ?t1.0 = "t0 + minute" and ?t2.0 = "t0 + minute"]
  note fresh = replaced [THEN conjunct2, THEN conjunct1, THEN mp, OF valid(1)]
  note gone = fresh [THEN conjunct2, THEN conjunct2, rule_format]
  note kept = replaced [THEN conjunct2, THEN conjunct2, THEN conjunct2, rule_format, OF valid(2)]
  have "getProp (stores (fst (manualAdd Part000 (t0 + minute) shopA phoneState)) ! 0) ''phone'' = None"
    by (rule gone) simp
  moreover
  have "getProp (stores (fst (manualAdd Part000 (t0 + minute) shopA phoneState)) ! 0) ''registeredAt'' = None"
    by (rule gone) simp
  moreover
  have "getProp (stores (fst (register Part000 probeUp (t0 + minute) (t0 + minute) shopA phoneState)) ! 0) ''phone''
       = Some (JStr ''555-0100'')"
    using kept [OF nophone] old by simp
  ultimately show ?thesis
    using old by simp
qed

text \<open>
  A \<^verbatim>\<open>manual-add\<close> for the stored store A that names \<^verbatim>\<open>storeId\<close> and \<^verbatim>\<open>name\<close> but no
  \<^verbatim>\<open>url\<close> is refused by \<^verbatim>\<open>part_000\<close> and \<^verbatim>\<open>part_001\<close>, and the old record stays as it
  is, with its \<^verbatim>\<open>phone\<close>.
\<close>

theorem manualAdd_without_url_refused:
  "findIndex (sameStoreId (getProp shopANoUrl ''storeId'')) (stores phoneState) = Some 0
   \<and> manualAdd Part000 (t0 + minute) shopANoUrl phoneState = (phoneState, Inl ValidationError)
   \<and> manualAdd Part001 (t0 + minute) shopANoUrl phoneState = (phoneState, Inl ValidationError)
   \<and> getProp (stores (fst (manualAdd Part000 (t0 + minute) shopANoUrl phoneState)) ! 0) ''phone''
       = Some (JStr ''555-0100'')"
proof -
  have "findIndex (sameStoreId (getProp shopANoUrl ''storeId'')) (stores phoneState) = Some 0"
    by (simp add: stores_phoneState sameStoreId_def shopANoUrl_def getProp_def)
  moreover
  have refused: "manualAdd v (t0 + minute) shopANoUrl phoneState = (phoneState, Inl ValidationError)"
    if "v = Part000 \<or> v = Part001" for v
    using that by (auto simp: manualAdd_def manualValid_def shopANoUrl_def getProp_def)
  moreover
  have "getProp (stores phoneState ! 0) ''phone'' = Some (JStr ''555-0100'')"
    by (simp add: stores_phoneState getProp_def)
  ultimately show ?thesis
    by (simp add: refused)
qed

subsection \<open>Syncing all stores\<close>

lemma syncLoop_attempted:
  "attempted (syncLoop f xs acc) =
     attempted acc @ map (\<lambda>s. getProp s ''url'')
       (case findIndex (catchThrows f) xs of None \<Rightarrow> xs | Some i \<Rightarrow> take (Suc i) xs)
   \<and> aborted (syncLoop f xs acc) = (aborted acc \<or> list_ex (catchThrows f) xs)"
proof (induction xs arbitrary: acc)
  case Nil
  then show ?case by simp
next
  case (Cons s xs)
  show ?case
  proof (cases "f (getProp s ''url'')")
    case (FetchThrows msg)
    then show ?thesis
      using Cons.IH by (simp add: Let_def catchThrows_def split: option.splits)
  next
    case FetchNotOk
    then show ?thesis
      using Cons.IH by (simp add: Let_def catchThrows_def split: option.splits)
  next
    case (FetchOk fetched)
    then show ?thesis
      using Cons.IH by (simp add: Let_def catchThrows_def split: option.splits)
  qed
qed

lemma syncLoop_skip:
  assumes "\<forall>s \<in> set xs. (\<forall>ps. f (getProp s ''url'') \<noteq> FetchOk ps) \<and> \<not> catchThrows f s"
  shows "syncLoop f (xs @ ys) acc
           = syncLoop f ys (acc\<lparr>attempted := attempted acc @ map (\<lambda>s. getProp s ''url'') xs\<rparr>)"
  using assms
  by (induction xs arbitrary: acc)
     (auto simp: Let_def catchThrows_def split: fetchResult.splits)

lemma onlineStores_status:
  "onlineStores ss = filter (\<lambda>s. getProp s ''status'' = Some (JStr ''online'')) ss"
  by (simp add: onlineStores_def strictEq_JStr)

lemma attempted_syncAll:
  "fst (snd (syncAll f st)) =
     attempted (syncLoop f (onlineStores (stores st))
       \<lparr>catalog = products st, totalProducts = 0, syncedStores = 0, attempted = [],
        aborted = False\<rparr>)"
  by (simp add: syncAll_def Let_def)

text \<open>
  When one of the stores stored as online answers with its products and the attempt
  at every other one throws (or is answered with an error status), and every store
  whose attempt throws has a \<^verbatim>\<open>name\<close> that converts to a string, \<^verbatim>\<open>sync-all\<close> runs
  through all of them, puts the products of the one store into the catalog in place
  of its old ones, and reports one synced store and the number of its products.
\<close>

theorem syncAll_one_store_fails:
  assumes "onlineStores (stores st) = pre @ [a] @ post"
    and "fetchProducts (getProp a ''url'') = FetchOk fetched"
    and "\<forall>s \<in> set (pre @ post). \<forall>ps. fetchProducts (getProp s ''url'') \<noteq> FetchOk ps"
    and "\<forall>s \<in> set (pre @ post). \<not> catchThrows fetchProducts s"
  shows "syncAll fetchProducts st =
           (st\<lparr>products := replaceProducts (getProp a ''storeId'') fetched (products st)\<rparr>,
            map (\<lambda>s. getProp s ''url'') (pre @ [a] @ post),
            Inr (JObj [(''success'', JBool True), (''syncedStores'', JNum 1),
                       (''totalProducts'', JNum (of_nat (length fetched)))]))
         \<and> set fetched \<subseteq> set (products (fst (syncAll fetchProducts st)))"
proof -
  let ?acc0 = "\<lparr>catalog = products st, totalProducts = 0, syncedStores = 0, attempted = [],
               aborted = False\<rparr>"
  let ?url = "\<lambda>s. getProp s ''url''"
  from assms(3,4)
  have pre: "\<forall>s \<in> set pre. (\<forall>ps. fetchProducts (?url s) \<noteq> FetchOk ps) \<and> \<not> catchThrows fetchProducts s"
    and post: "\<forall>s \<in> set post. (\<forall>ps. fetchProducts (?url s) \<noteq> FetchOk ps) \<and> \<not> catchThrows fetchProducts s"
    by auto
  have "syncLoop fetchProducts (pre @ [a] @ post) ?acc0 =
          \<lparr>catalog = replaceProducts (getProp a ''storeId'') fetched (products st),
           totalProducts = length fetched, syncedStores = 1,
           attempted = map ?url (pre @ [a] @ post), aborted = False\<rparr>"
    using syncLoop_skip [OF post, where ys = "[]"]
    by (simp add: syncLoop_skip [OF pre] assms(2) Let_def)
  then have "syncAll fetchProducts st =
           (st\<lparr>products := replaceProducts (getProp a ''storeId'') fetched (products st)\<rparr>,
            map ?url (pre @ [a] @ post),
            Inr (JObj [(''success'', JBool True), (''syncedStores'', JNum 1),
                       (''totalProducts'', JNum (of_nat (length fetched)))]))"
    by (simp add: syncAll_def assms(1) Let_def)
  then show ?thesis
    by (simp add: replaceProducts_def Let_def)
qed

lemma stores_bothRegistered:
  "stores (bothRegistered Part000) =
     [[(''storeId'', JStr ''A''), (''name'', JStr ''Shop A''), (''url'', JStr ''http://a.example''),
       (''lastSeen'', JStr ''2023-11-14T22:13:20.000Z''), (''status'', JStr ''online''),
       (''registeredAt'', JStr ''2023-11-14T22:13:20.000Z'')],
      [(''storeId'', JStr ''B''), (''name'', JStr ''Shop B''), (''url'', JStr ''http://b.example''),
       (''lastSeen'', JStr ''2023-11-14T22:13:20.000Z''), (''status'', JStr ''online''),
       (''registeredAt'', JStr ''2023-11-14T22:13:20.000Z'')]]"
  by (simp add: bothRegistered_def register_def registerValid_def stampStore_def mergeStore_def
        shopB_def getProp_def setProp_def orElse_def toISOString_t0 Let_def
        stores_registeredA sameStoreId_def)

lemma products_bothRegistered: "products (bothRegistered v) = []"
  by (cases v)
     (simp_all add: bothRegistered_def registeredA_def register_def registerValid_def shopA_def
        shopB_def getProp_def emptyState_def Let_def)

theorem syncAll_one_store_fails_witness:
  "products (fst (syncAll remote (bothRegistered Part000))) = [apple, pear]
   \<and> snd (syncAll remote (bothRegistered Part000)) =
       ([Some (JStr ''http://a.example''), Some (JStr ''http://b.example'')],
        Inr (JObj [(''success'', JBool True), (''syncedStores'', JNum 1), (''totalProducts'', JNum 2)]))"
proof -
  let ?a = "stores (bothRegistered Part000) ! 0" and ?b = "stores (bothRegistered Part000) ! 1"
  have online: "onlineStores (stores (bothRegistered Part000)) = [] @ [?a] @ [?b]"
    by (simp add: stores_bothRegistered onlineStores_def getProp_def)
  have ok: "remote (getProp ?a ''url'') = FetchOk [apple, pear]"
    by (simp add: stores_bothRegistered remote_def getProp_def)
  have throws: "\<forall>s \<in> set ([] @ [?b]). \<forall>ps. remote (getProp s ''url'') \<noteq> FetchOk ps"
    by (simp add: stores_bothRegistered remote_def getProp_def)
  have named: "\<forall>s \<in> set ([] @ [?b]). \<not> catchThrows remote s"
    by (simp add: stores_bothRegistered remote_def getProp_def catchThrows_def conversionThrows_def)
  from syncAll_one_store_fails [OF online ok throws named]
  show ?thesis
    by (simp add: stores_bothRegistered replaceProducts_def products_bothRegistered getProp_def)
qed

lemma stores_oddFirst:
  "stores oddFirst =
     [[(''storeId'', JStr ''B''), (''name'', JObj [(''toString'', JNull)]),
       (''url'', JStr ''http://b.example''),
       (''lastSeen'', JStr ''2023-11-14T22:13:20.000Z''), (''status'', JStr ''online''),
       (''registeredAt'', JStr ''2023-11-14T22:13:20.000Z'')],
      [(''storeId'', JStr ''A''), (''name'', JStr ''Shop A''), (''url'', JStr ''http://a.example''),
       (''lastSeen'', JStr ''2023-11-14T22:13:20.000Z''), (''status'', JStr ''online''),
       (''registeredAt'', JStr ''2023-11-14T22:13:20.000Z'')]]"
  by (simp add: oddFirst_def register_def registerValid_def stampStore_def mergeStore_def
        shopA_def shopOdd_def emptyState_def getProp_def setProp_def orElse_def toISOString_t0
        Let_def sameStoreId_def)

lemma products_oddFirst: "products oddFirst = []"
  by (simp add: oddFirst_def register_def registerValid_def shopA_def shopOdd_def getProp_def
        emptyState_def Let_def)

text \<open>
  C8 on the code. Store B registers with \<^verbatim>\<open>part_000\<close> with the \<^verbatim>\<open>name\<close>
  \<^verbatim>\<open>{"toString": null}\<close>, which the registration accepts, and then store A
  registers; both are stored as online, B first. Store A would answer with two
  products, and the attempt at B throws. \<^verbatim>\<open>sync-all\<close> attempts B, the logging of the
  failure throws, and the handler answers with status 500: A is never attempted and
  none of its products reaches the catalog.
\<close>

theorem syncAll_aborts_in_catch:
  "snd (register Part000 probeUp t0 t0 shopOdd emptyState) \<noteq> Inl ValidationError
   \<and> map (\<lambda>s. getProp s ''storeId'') (onlineStores (stores oddFirst))
       = [Some (JStr ''B''), Some (JStr ''A'')]
   \<and> remote (getProp (stores oddFirst ! 1) ''url'') = FetchOk [apple, pear]
   \<and> remote (getProp (stores oddFirst ! 0) ''url'') = FetchThrows ''connect ECONNREFUSED''
   \<and> syncAll remote oddFirst = (oddFirst, [Some (JStr ''http://b.example'')], Inl UnexpectedError)
   \<and> httpStatus UnexpectedError = 500
   \<and> products (fst (syncAll remote oddFirst)) = []"
proof -
  have "syncLoop remote (onlineStores (stores oddFirst))
          \<lparr>catalog = [], totalProducts = 0, syncedStores = 0, attempted = [], aborted = False\<rparr>
        = \<lparr>catalog = [], totalProducts = 0, syncedStores = 0,
           attempted = [Some (JStr ''http://b.example'')], aborted = True\<rparr>"
    by (simp add: stores_oddFirst onlineStores_def getProp_def remote_def conversionThrows_def
        Let_def)
  then have "syncAll remote oddFirst
               = (oddFirst, [Some (JStr ''http://b.example'')], Inl UnexpectedError)"
    by (simp add: syncAll_def products_oddFirst Let_def)
  moreover
  have "snd (register Part000 probeUp t0 t0 shopOdd emptyState) \<noteq> Inl ValidationError"
    by (simp add: register_def registerValid_def shopOdd_def getProp_def Let_def)
  ultimately show ?thesis
    by (simp add: stores_oddFirst onlineStores_def getProp_def remote_def products_oddFirst)
qed

text \<open>
  C2 as the code has it. \<^verbatim>\<open>sync-all\<close> attempts the stores whose stored \<^verbatim>\<open>status\<close>
  field is \<^verbatim>\<open>online\<close> when the stores file is read, in file order and one attempt
  each, and no others: all of them when the logging of a failed attempt throws for
  none of them, and else those up to the first one where it throws, and then the
  answer is the error with status 500. The field is what the last registration,
  manual addition or store list wrote; \<^verbatim>\<open>sync-all\<close> reads no clock and no
  \<^verbatim>\<open>lastSeen\<close>.
\<close>

theorem syncAll_requests:
  "fst (snd (syncAll fetchProducts st)) =
     map (\<lambda>s. getProp s ''url'')
       (case findIndex (catchThrows fetchProducts)
               (filter (\<lambda>s. getProp s ''status'' = Some (JStr ''online'')) (stores st)) of
          None \<Rightarrow> filter (\<lambda>s. getProp s ''status'' = Some (JStr ''online'')) (stores st)
        | Some i \<Rightarrow>
            take (Suc i) (filter (\<lambda>s. getProp s ''status'' = Some (JStr ''online'')) (stores st)))
   \<and> (snd (snd (syncAll fetchProducts st)) = Inl UnexpectedError)
       = list_ex (catchThrows fetchProducts)
           (filter (\<lambda>s. getProp s ''status'' = Some (JStr ''online'')) (stores st))"
proof -
  let ?acc0 = "\<lparr>catalog = products st, totalProducts = 0, syncedStores = 0, attempted = [],
               aborted = False\<rparr>"
  have online: "onlineStores (stores st)
                  = filter (\<lambda>s. getProp s ''status'' = Some (JStr ''online'')) (stores st)"
    by (rule onlineStores_status)
  from syncLoop_attempted [of fetchProducts "onlineStores (stores st)" ?acc0]
  show ?thesis
    unfolding online by (simp add: syncAll_def online Let_def)
qed

text \<open>
  Both stores are stored as online and have names that are strings: both are
  attempted, store A first, although the attempt at store B throws, and the answer is
  a success.
\<close>

theorem syncAll_requests_witness:
  "fst (snd (syncAll remote (bothRegistered Part000)))
     = [Some (JStr ''http://a.example''), Some (JStr ''http://b.example'')]
   \<and> snd (snd (syncAll remote (bothRegistered Part000))) \<noteq> Inl UnexpectedError"
proof -
  have online: "filter (\<lambda>s. getProp s ''status'' = Some (JStr ''online''))
                  (stores (bothRegistered Part000)) = stores (bothRegistered Part000)"
    by (simp add: stores_bothRegistered getProp_def)
  have named: "findIndex (catchThrows remote) (stores (bothRegistered Part000)) = None"
    "\<not> list_ex (catchThrows remote) (stores (bothRegistered Part000))"
    by (simp_all add: stores_bothRegistered remote_def getProp_def catchThrows_def
          conversionThrows_def)
  have "fst (snd (syncAll remote (bothRegistered Part000)))
          = map (\<lambda>s. getProp s ''url'') (stores (bothRegistered Part000))
        \<and> snd (snd (syncAll remote (bothRegistered Part000))) \<noteq> Inl UnexpectedError"
    using syncAll_requests [of remote "bothRegistered Part000"]
    by (simp only: online named option.case) simp
  then show ?thesis
    by (simp add: stores_bothRegistered getProp_def)
qed

text \<open>
  An hour after its registration, with no store list in between, store A is still
  asked for its products, although its gap is not below the threshold: a store list
  at that moment marks it offline.
\<close>

theorem syncAll_requests_stale_store:
  "fst (snd (syncAll remote (registeredA Part000))) = [Some (JStr ''http://a.example'')]
   \<and> minutesAgo noHost (t0 + 60 * minute) (stores (registeredA Part000) ! 0) = Inr (Some 60)
   \<and> \<not> numLess (Some 60) (threshold Part000)
   \<and> getProp (stores (fst (listStores Part000 noHost (t0 + 60 * minute) (registeredA Part000))) ! 0)
       ''status'' = Some (JStr ''offline'')"
proof -
  have seen: "newDate noHost (getProp (stores (registeredA Part000) ! 0) ''lastSeen'') = Inr (Some t0)"
    by (simp add: stores_registeredA getProp_def Date_parse_t0)
  have "fst (snd (syncAll remote (registeredA Part000))) = [Some (JStr ''http://a.example'')]"
    by (simp add: attempted_syncAll onlineStores_def stores_registeredA getProp_def remote_def
        Let_def)
  moreover
  have "minutesAgo noHost (t0 + 60 * minute) (stores (registeredA Part000) ! 0) = Inr (Some 60)"
    by (simp add: minutesAgo_def seen roundDiff_def minute_def)
  moreover
  have "\<not> numLess (Some 60) (threshold Part000)"
    by (simp add: numLess_def)
  moreover
  have "getProp (stores (fst (listStores Part000 noHost (t0 + 60 * minute) (registeredA Part000))) ! 0)
       ''status'' = Some (JStr ''offline'')"
  proof -
    have len: "0 < length (stores (registeredA Part000))"
      by (simp add: stores_registeredA)
    have conv: "\<forall>s \<in> set (stores (registeredA Part000)). \<not> conversionThrows (getProp s ''lastSeen'')"
      by (simp add: stores_registeredA getProp_def conversionThrows_def)
    show ?thesis
      by (simp add: status_listStores [OF len conv] seen minute_def)
  qed
  ultimately show ?thesis
    by simp
qed

subsection \<open>Syncing one store\<close>

lemma replaceProducts_tagged:
  "replaceProducts (Some (JStr A)) fetched ps =
     filter (\<lambda>p. getProp p ''storeId'' \<noteq> Some (JStr A)) ps @ fetched"
  by (simp add: replaceProducts_def strictEq_JStr)

lemma syncProducts_ok:
  assumes "find (sameStoreId (Some (JStr A))) (stores st) = Some store"
    and "fetchProducts (getProp store ''url'') = FetchOk fetched"
  shows "fst (syncProducts fetchProducts A st) =
           st\<lparr>products := filter (\<lambda>p. getProp p ''storeId'' \<noteq> Some (JStr A)) (products st) @ fetched\<rparr>"
  using assms by (simp add: syncProducts_def replaceProducts_tagged)

lemma filter_other_tag:
  assumes "B \<noteq> T"
  shows "filter (\<lambda>p. getProp p ''storeId'' \<noteq> T \<and> getProp p ''storeId'' = B) ps
           = filter (\<lambda>p. getProp p ''storeId'' = B) ps"
  using assms by (intro filter_cong) auto

lemma filter_all_tagged:
  assumes "\<forall>p \<in> set ps. getProp p ''storeId'' = T"
  shows "filter (\<lambda>p. getProp p ''storeId'' = T) ps = ps"
    and "B \<noteq> T \<Longrightarrow> filter (\<lambda>p. getProp p ''storeId'' = B) ps = []"
  using assms by (induction ps) auto

text \<open>
  C7 as the code has it. A sync of store A that reaches the store and gets a product
  list keeps every product whose \<^verbatim>\<open>storeId\<close> is not A, unchanged and in order, drops
  every product whose \<^verbatim>\<open>storeId\<close> is A, and appends the fetched list as it came.
  When every fetched product carries the \<^verbatim>\<open>storeId\<close> A, the products of A in the
  catalog are then exactly the fetched list and those of every other store exactly
  what they were: one generation for each store.
\<close>

theorem syncProducts_replaces:
  assumes "find (sameStoreId (Some (JStr A))) (stores st) = Some store"
    and "fetchProducts (getProp store ''url'') = FetchOk fetched"
  shows "fst (syncProducts fetchProducts A st) =
           st\<lparr>products := filter (\<lambda>p. getProp p ''storeId'' \<noteq> Some (JStr A)) (products st) @ fetched\<rparr>
         \<and> (\<forall>B. B \<noteq> Some (JStr A) \<longrightarrow>
               filter (\<lambda>p. getProp p ''storeId'' = B) (products (fst (syncProducts fetchProducts A st)))
                 = filter (\<lambda>p. getProp p ''storeId'' = B) (products st)
                   @ filter (\<lambda>p. getProp p ''storeId'' = B) fetched)
         \<and> filter (\<lambda>p. getProp p ''storeId'' = Some (JStr A))
               (products (fst (syncProducts fetchProducts A st)))
             = filter (\<lambda>p. getProp p ''storeId'' = Some (JStr A)) fetched
         \<and> ((\<forall>p \<in> set fetched. getProp p ''storeId'' = Some (JStr A)) \<longrightarrow>
               filter (\<lambda>p. getProp p ''storeId'' = Some (JStr A))
                   (products (fst (syncProducts fetchProducts A st))) = fetched
               \<and> (\<forall>B. B \<noteq> Some (JStr A) \<longrightarrow>
                     filter (\<lambda>p. getProp p ''storeId'' = B)
                         (products (fst (syncProducts fetchProducts A st)))
                       = filter (\<lambda>p. getProp p ''storeId'' = B) (products st)))"
proof -
  have "fst (syncProducts fetchProducts A st) =
          st\<lparr>products := filter (\<lambda>p. getProp p ''storeId'' \<noteq> Some (JStr A)) (products st) @ fetched\<rparr>"
    using assms by (rule syncProducts_ok)
  then show ?thesis
    by (simp add: filter_other_tag filter_all_tagged)
qed

lemma found_registeredA:
  "find (sameStoreId (Some (JStr ''A''))) (stores (registeredA Part000)) = Some (stores (registeredA Part000) ! 0)"
  by (simp add: stores_registeredA sameStoreId_def getProp_def)

lemma products_registeredA: "products (registeredA v) = []"
  by (cases v)
     (simp_all add: registeredA_def register_def registerValid_def shopA_def getProp_def
        emptyState_def Let_def)

theorem syncProducts_replaces_witness:
  "products (fst (syncProducts remote ''A'' (registeredA Part000\<lparr>products := [plum, apple]\<rparr>)))
     = [plum, apple, pear]
   \<and> filter (\<lambda>p. getProp p ''storeId'' = Some (JStr ''A''))
        (products (fst (syncProducts remote ''A'' (registeredA Part000\<lparr>products := [plum, apple]\<rparr>))))
     = [apple, pear]
   \<and> filter (\<lambda>p. getProp p ''storeId'' = None)
        (products (fst (syncProducts remote ''A'' (registeredA Part000\<lparr>products := [plum, apple]\<rparr>))))
     = [plum]"
proof -
  let ?st = "registeredA Part000\<lparr>products := [plum, apple]\<rparr>"
  have found: "find (sameStoreId (Some (JStr ''A''))) (stores ?st) = Some (stores (registeredA Part000) ! 0)"
    by (simp add: found_registeredA)
  have ok: "remote (getProp (stores (registeredA Part000) ! 0) ''url'') = FetchOk [apple, pear]"
    by (simp add: stores_registeredA remote_def getProp_def)
  have tagged: "\<forall>p \<in> set [apple, pear]. getProp p ''storeId'' = Some (JStr ''A'')"
    by (simp add: apple_def pear_def getProp_def)
  have tags: "getProp plum ''storeId'' = None" "getProp apple ''storeId'' = Some (JStr ''A'')"
    by (simp_all add: plum_def apple_def getProp_def)
  note sync = syncProducts_replaces [where fetchProducts = remote, OF found ok]
  from sync [THEN conjunct1] have "products (fst (syncProducts remote ''A'' ?st)) = [plum, apple, pear]"
    by (simp add: tags)
  moreover
  note gen = sync [THEN conjunct2, THEN conjunct2, THEN conjunct2, THEN mp, OF tagged]
  from gen [THEN conjunct1]
  have "filter (\<lambda>p. getProp p ''storeId'' = Some (JStr ''A'')) (products (fst (syncProducts remote ''A'' ?st)))
          = [apple, pear]"
    by simp
  moreover
  from gen [THEN conjunct2, THEN spec, of None]
  have "filter (\<lambda>p. getProp p ''storeId'' = None) (products (fst (syncProducts remote ''A'' ?st))) = [plum]"
    by (simp add: tags)
  ultimately show ?thesis
    by simp
qed

text \<open>
  Store A is synced twice and answers with products that carry no \<^verbatim>\<open>storeId\<close>: the
  second sync removes nothing, and the catalog holds what both syncs fetched from A.
\<close>

theorem syncProducts_keeps_untagged:
  "products (fst (syncProducts shelfPlum ''A'' (registeredA Part000))) = [plum]
   \<and> products (fst (syncProducts shelfFig ''A'' (fst (syncProducts shelfPlum ''A'' (registeredA Part000)))))
       = [plum, fig]"
proof -
  let ?a = "stores (registeredA Part000) ! 0"
  have plums: "shelfPlum (getProp ?a ''url'') = FetchOk [plum]"
    and figs: "shelfFig (getProp ?a ''url'') = FetchOk [fig]"
    by (simp_all add: shelfPlum_def shelfFig_def)
  have first: "fst (syncProducts shelfPlum ''A'' (registeredA Part000))
                 = registeredA Part000\<lparr>products := [plum]\<rparr>"
    using syncProducts_ok [where fetchProducts = shelfPlum, OF found_registeredA plums]
    by (simp add: products_registeredA)
  have found: "find (sameStoreId (Some (JStr ''A''))) (stores (registeredA Part000\<lparr>products := [plum]\<rparr>))
                 = Some ?a"
    by (simp add: found_registeredA)
  have "products (fst (syncProducts shelfFig ''A'' (registeredA Part000\<lparr>products := [plum]\<rparr>)))
          = [plum, fig]"
    using syncProducts_ok [where fetchProducts = shelfFig, OF found figs]
    by (simp add: plum_def getProp_def)
  with first show ?thesis
    by simp
qed

subsection \<open>Creating an order\<close>

lemma storeId_stampOrder:
  "getProp (setProp ''status'' x (setProp ''createdAt'' y (setProp ''orderId'' z body))) ''storeId''
     = getProp body ''storeId''"
  by (simp add: getProp_setProp)

text \<open>
  C9 as the code has it. When no store record has the \<^verbatim>\<open>storeId\<close> of the order, no
  order is appended, whatever the body is: a body with \<^verbatim>\<open>storeId\<close>, \<^verbatim>\<open>items\<close> and
  \<^verbatim>\<open>customer\<close> is answered with 404 (not found), and a body that lacks one of them
  with 400 (validation), since the required fields are checked before the store is
  looked up.
\<close>

theorem createOrder_unknown_store:
  assumes "\<forall>s \<in> set (stores st). \<not> sameStoreId (getProp body ''storeId'') s"
  shows "createOrder t1 t2 body st
           = (st, Inl (if orderValid body then NotFoundError else ValidationError))
         \<and> httpStatus (if orderValid body then NotFoundError else ValidationError)
             = (if orderValid body then 404 else 400)"
proof -
  from assms have "find (sameStoreId (getProp body ''storeId'')) (stores st) = None"
    by (simp add: find_None_iff)
  then show ?thesis
    by (simp add: createOrder_def storeId_stampOrder Let_def)
qed

theorem createOrder_unknown_store_witness:
  "createOrder t0 t0 ghostOrder (registeredA Part000) = (registeredA Part000, Inl NotFoundError)
   \<and> httpStatus NotFoundError = 404"
proof -
  have unknown: "\<forall>s \<in> set (stores (registeredA Part000)). \<not> sameStoreId (getProp ghostOrder ''storeId'') s"
    by (simp add: stores_registeredA sameStoreId_def ghostOrder_def getProp_def)
  have valid: "orderValid ghostOrder"
    by (simp add: orderValid_def ghostOrder_def getProp_def)
  from createOrder_unknown_store [OF unknown, of t0 t0] valid show ?thesis
    by simp
qed

text \<open>
  An order for an unregistered store that has no \<^verbatim>\<open>items\<close> is refused as invalid,
  with 400 and not with 404.
\<close>

theorem createOrder_invalid_before_unknown:
  "createOrder t0 t0 ghostOrderNoItems (registeredA Part000)
     = (registeredA Part000, Inl ValidationError)
   \<and> httpStatus ValidationError = 400
   \<and> find (sameStoreId (getProp ghostOrderNoItems ''storeId'')) (stores (registeredA Part000)) = None"
  by (simp add: createOrder_def orderValid_def ghostOrderNoItems_def getProp_def
      stores_registeredA sameStoreId_def)

subsection \<open>Listing the orders\<close>

lemma toISOString_t1: "toISOString (t0 + minute) = ''2023-11-14T22:14:20.000Z''"
  by (simp add: t0_def minute_def iso_defs)

lemma toISOString_t2: "toISOString (t0 + 2 * minute) = ''2023-11-14T22:15:20.000Z''"
  by (simp add: t0_def minute_def iso_defs)

lemma Date_parse_t1: "Date_parse host ''2023-11-14T22:14:20.000Z'' = Some (t0 + minute)"
proof -
  have "isoCandidate ''2023-11-14T22:14:20.000Z'' = t0 + minute"
    by (simp add: t0_def minute_def parse_defs)
  then show ?thesis
    by (simp add: Date_parse_def toISOString_t1)
qed

lemma Date_parse_t2: "Date_parse host ''2023-11-14T22:15:20.000Z'' = Some (t0 + 2 * minute)"
proof -
  have "isoCandidate ''2023-11-14T22:15:20.000Z'' = t0 + 2 * minute"
    by (simp add: t0_def minute_def parse_defs)
  then show ?thesis
    by (simp add: Date_parse_def toISOString_t2)
qed

lemma orderId_t0:
  "orderId t0 = ''MAIN-ORD-1700000000000''"
  "orderId (t0 + minute) = ''MAIN-ORD-1700000060000''"
  "orderId (t0 + 2 * minute) = ''MAIN-ORD-1700000120000''"
  by (simp_all add: orderId_def t0_def minute_def decimal.simps digitChar_def)

lemma createOrder_orderA:
  assumes "stores st = stores (registeredA v)"
  shows "fst (createOrder t1 t2 orderA st)
           = st\<lparr>orders := orders st @ [placed (orderId t1) (toISOString t2)]\<rparr>"
  using assms
  by (simp add: createOrder_def orderValid_def orderA_def placed_def getProp_def setProp_def
      setPropOpt_def stores_registeredA sameStoreId_def Let_def)

lemma orders_registeredA: "orders (registeredA v) = []"
  by (cases v)
     (simp_all add: registeredA_def register_def registerValid_def shopA_def getProp_def
        emptyState_def Let_def)

lemma orders_threeOrders:
  "orders (threeOrders v) =
     [placed ''MAIN-ORD-1700000000000'' ''2023-11-14T22:13:20.000Z'',
      placed ''MAIN-ORD-1700000060000'' ''2023-11-14T22:14:20.000Z'',
      placed ''MAIN-ORD-1700000120000'' ''2023-11-14T22:15:20.000Z'']"
  by (simp add: threeOrders_def createOrder_orderA orders_registeredA orderId_t0
      toISOString_t0 toISOString_t1 toISOString_t2)

lemma createdTime_placed: "createdTime host (placed ident created) = Inr (Date_parse host created)"
  by (simp add: createdTime_def placed_def orderA_def getProp_def)

lemma mset_insertWith: "mset (insertWith cmp x xs) = add_mset x (mset xs)"
  by (induction xs) auto

lemma mset_sortWith: "mset (sortWith cmp xs) = mset xs"
  by (induction xs) (auto simp: sortWith_def mset_insertWith)

lemma set_insertWith: "set (insertWith cmp x xs) = insert x (set xs)"
  by (induction xs) auto

lemma set_sortWith: "set (sortWith cmp xs) = set xs"
  by (induction xs) (auto simp: sortWith_def set_insertWith)

lemma sortCompare_valid:
  assumes "createdTime host a = Inr (Some ta)" and "createdTime host b = Inr (Some tb)"
  shows "sortCompare host a b = tb - ta"
  using assms by (simp add: sortCompare_def compareCreated_def)

lemma newestFirst_insertWith:
  assumes "\<exists>t. createdTime host x = Inr (Some t)"
    and "\<forall>y \<in> set ys. \<exists>t. createdTime host y = Inr (Some t)"
    and "newestFirst host ys"
  shows "newestFirst host (insertWith (sortCompare host) x ys)"
  using assms
proof (induction ys)
  case Nil
  then show ?case by (simp add: newestFirst_def)
next
  case (Cons y ys)
  from Cons.prems obtain tx ty
    where t: "createdTime host x = Inr (Some tx)" "createdTime host y = Inr (Some ty)"
    by auto
  have tail: "newestFirst host (insertWith (sortCompare host) x ys)"
    using Cons by (simp add: newestFirst_def)
  show ?case
  proof (cases "sortCompare host x y \<le> 0")
    case True
    with t have "ty \<le> tx"
      by (simp add: sortCompare_valid)
    with True t Cons.prems(3) show ?thesis
      by (fastforce simp: newestFirst_def)
  next
    case False
    with t have "tx \<le> ty"
      by (simp add: sortCompare_valid)
    with False t tail Cons.prems(3) show ?thesis
      by (auto simp: newestFirst_def set_insertWith)
  qed
qed

lemma newestFirst_sortWith:
  assumes "\<forall>y \<in> set xs. \<exists>t. createdTime host y = Inr (Some t)"
  shows "newestFirst host (sortWith (sortCompare host) xs)"
  using assms
proof (induction xs)
  case Nil
  then show ?case by (simp add: sortWith_def newestFirst_def)
next
  case (Cons x xs)
  then have "newestFirst host (insertWith (sortCompare host) x (sortWith (sortCompare host) xs))"
    by (intro newestFirst_insertWith) (simp_all add: set_sortWith)
  then show ?case
    by (simp add: sortWith_def)
qed

lemma sortWith_short: "length xs \<le> 1 \<Longrightarrow> sortWith cmp xs = xs"
  by (cases xs) (simp_all add: sortWith_def)

lemma sortOrders_valid:
  assumes "\<forall>y \<in> set xs. \<exists>t. createdTime host y = Inr (Some t)"
  shows "sortOrders host engine xs = Inr (sortWith (sortCompare host) xs)"
proof -
  from assms have "\<not> list_ex (\<lambda>order. createdTime host order = Inl TypeError) xs"
    and "list_all (\<lambda>order. createdTime host order \<noteq> Inr None) xs"
    by (auto simp: list_ex_iff list_all_iff)
  then show ?thesis
    by (simp add: sortOrders_def sortWith_short)
qed

text \<open>
  With an invalid date among two or more orders the answer is the engine's order, and
  with a \<^verbatim>\<open>createdAt\<close> that does not convert among them the answer is the error
  with status 500.
\<close>

lemma sortOrders_invalid:
  assumes "2 \<le> length os"
    and "\<forall>order \<in> set os. \<not> conversionThrows (getProp order ''createdAt'')"
    and "order \<in> set os" and "createdTime host order = Inr None"
  shows "sortOrders host engine os = Inr (engine os)"
proof -
  from assms(2) have "\<not> list_ex (\<lambda>order. createdTime host order = Inl TypeError) os"
    by (simp add: list_ex_iff createdTime_def newDate_throws)
  moreover from assms(3,4) have "\<not> list_all (\<lambda>order. createdTime host order \<noteq> Inr None) os"
    by (auto simp: list_all_iff)
  ultimately show ?thesis
    using assms(1) by (simp add: sortOrders_def)
qed

lemma listOrders_throws:
  assumes "2 \<le> length (filterOrders storeId status (orders st))"
    and "order \<in> set (filterOrders storeId status (orders st))"
    and "conversionThrows (getProp order ''createdAt'')"
  shows "listOrders Part001 host engine storeId status st = (st, Inl UnexpectedError)"
proof -
  from assms(3) have "createdTime host order = Inl TypeError"
    by (simp add: createdTime_def newDate_throws)
  with assms(2)
  have "list_ex (\<lambda>order. createdTime host order = Inl TypeError)
          (filterOrders storeId status (orders st))"
    by (auto simp: list_ex_iff)
  with assms(1) show ?thesis
    by (simp add: listOrders_def sortOrders_def)
qed

lemma filter_optional:
  "filter (\<lambda>x. (a \<longrightarrow> A x) \<and> (b \<longrightarrow> B x)) xs =
     (let ys = (if a then filter A xs else xs) in if b then filter B ys else ys)"
  by (cases a; cases b) (simp_all add: Let_def)

lemma filterOrders_filter:
  "filterOrders storeId status os =
     filter (\<lambda>order. (truthy storeId \<longrightarrow> strictEq (getProp order ''storeId'') storeId)
                    \<and> (truthy status \<and> \<not> strictEq status (Some (JStr ''all''))
                        \<longrightarrow> strictEq (getProp order ''status'') status)) os"
  unfolding filterOrders_def filter_optional by (simp only: Let_def)

lemma sortWith_three:
  assumes "createdTime host o1 = Inr (Some t1)" "createdTime host o2 = Inr (Some t2)"
    "createdTime host o3 = Inr (Some t3)"
    and "t1 < t2" "t2 < t3"
  shows "sortWith (sortCompare host) [o1, o2, o3] = [o3, o2, o1]"
  using assms by (simp add: sortWith_def sortCompare_valid)

text \<open>
  C4 as the code has it. In \<^verbatim>\<open>part_001\<close> the order list leaves the state as it is
  and answers with the orders that pass the exact-match filters on \<^verbatim>\<open>storeId\<close> and
  \<^verbatim>\<open>status\<close> (a filter that is absent or empty, or the status \<^verbatim>\<open>all\<close>, filters
  nothing), each as often as it is stored, sorted by \<^verbatim>\<open>createdAt\<close> newest first when
  every stored \<^verbatim>\<open>createdAt\<close> is a date; orders created at \<open>T1 < T2 < T3\<close> come back
  as \<open>[T3, T2, T1]\<close>. In \<^verbatim>\<open>main-server.js\<close> the answer is the stored list, neither
  filtered nor sorted.
\<close>

theorem listOrders_filters_sorts:
  assumes "\<forall>order \<in> set (orders st). \<exists>t. createdTime host order = Inr (Some t)"
  shows "\<exists>rs. listOrders Part001 host engine storeId status st = (st, Inr (JArr (map JObj rs)))
           \<and> mset rs =
               mset (filter (\<lambda>order. (truthy storeId \<longrightarrow> strictEq (getProp order ''storeId'') storeId)
                              \<and> (truthy status \<and> \<not> strictEq status (Some (JStr ''all''))
                                  \<longrightarrow> strictEq (getProp order ''status'') status))
                       (orders st))
           \<and> newestFirst host rs
           \<and> (\<forall>o1 o2 o3 T1 T2 T3.
                 orders st = [o1, o2, o3] \<and> createdTime host o1 = Inr (Some T1)
                 \<and> createdTime host o2 = Inr (Some T2) \<and> createdTime host o3 = Inr (Some T3)
                 \<and> T1 < T2 \<and> T2 < T3 \<and> \<not> truthy storeId \<and> \<not> truthy status
                 \<longrightarrow> rs = [o3, o2, o1])
         \<and> listOrders MainServer host engine storeId status st
             = (st, Inr (JArr (map JObj (orders st))))"
proof -
  let ?rs = "sortWith (sortCompare host) (filterOrders storeId status (orders st))"
  have valid: "\<forall>order \<in> set (filterOrders storeId status (orders st)).
                 \<exists>t. createdTime host order = Inr (Some t)"
    using assms by (simp add: filterOrders_filter)
  then have "sortOrders host engine (filterOrders storeId status (orders st)) = Inr ?rs"
    by (rule sortOrders_valid)
  then have answer: "listOrders Part001 host engine storeId status st = (st, Inr (JArr (map JObj ?rs)))"
    by (simp add: listOrders_def)
  have perm: "mset ?rs = mset (filterOrders storeId status (orders st))"
    by (rule mset_sortWith)
  from valid have sorted: "newestFirst host ?rs"
    by (rule newestFirst_sortWith)
  have three: "?rs = [o3, o2, o1]"
    if "orders st = [o1, o2, o3]" "createdTime host o1 = Inr (Some T1)"
      "createdTime host o2 = Inr (Some T2)" "createdTime host o3 = Inr (Some T3)"
      "T1 < T2" "T2 < T3" "\<not> truthy storeId" "\<not> truthy status"
    for o1 o2 o3 T1 T2 T3
    using that by (simp add: filterOrders_def sortWith_three)
  have main: "listOrders MainServer host engine storeId status st
                = (st, Inr (JArr (map JObj (orders st))))"
    by (simp add: listOrders_def)
  from answer perm sorted three main show ?thesis
    unfolding filterOrders_filter by blast
qed

theorem listOrders_filters_sorts_witness:
  "listOrders Part001 noHost noEngine None None (threeOrders Part001) =
     (threeOrders Part001,
      Inr (JArr (map JObj
        [placed ''MAIN-ORD-1700000120000'' ''2023-11-14T22:15:20.000Z'',
         placed ''MAIN-ORD-1700000060000'' ''2023-11-14T22:14:20.000Z'',
         placed ''MAIN-ORD-1700000000000'' ''2023-11-14T22:13:20.000Z''])))"
proof -
  let ?o1 = "placed ''MAIN-ORD-1700000000000'' ''2023-11-14T22:13:20.000Z''"
  let ?o2 = "placed ''MAIN-ORD-1700000060000'' ''2023-11-14T22:14:20.000Z''"
  let ?o3 = "placed ''MAIN-ORD-1700000120000'' ''2023-11-14T22:15:20.000Z''"
  have times: "createdTime noHost ?o1 = Inr (Some t0)"
    "createdTime noHost ?o2 = Inr (Some (t0 + minute))"
    "createdTime noHost ?o3 = Inr (Some (t0 + 2 * minute))"
    by (simp_all add: createdTime_placed Date_parse_t0 Date_parse_t1 Date_parse_t2)
  have valid: "\<forall>order \<in> set (orders (threeOrders Part001)).
                 \<exists>t. createdTime noHost order = Inr (Some t)"
    by (simp add: orders_threeOrders times)
  from listOrders_filters_sorts [OF valid, of noEngine None None]
  obtain rs where rs: "listOrders Part001 noHost noEngine None None (threeOrders Part001)
                         = (threeOrders Part001, Inr (JArr (map JObj rs)))"
    and three: "\<forall>o1 o2 o3 T1 T2 T3.
                 orders (threeOrders Part001) = [o1, o2, o3] \<and> createdTime noHost o1 = Inr (Some T1)
                 \<and> createdTime noHost o2 = Inr (Some T2) \<and> createdTime noHost o3 = Inr (Some T3)
                 \<and> T1 < T2 \<and> T2 < T3 \<and> \<not> truthy None \<and> \<not> truthy None
                 \<longrightarrow> rs = [o3, o2, o1]"
    by blast
  have "rs = [?o3, ?o2, ?o1]"
    by (rule three [rule_format, of ?o1 ?o2 ?o3 t0 "t0 + minute" "t0 + 2 * minute"])
       (simp add: orders_threeOrders times minute_def)
  with rs show ?thesis
    by simp
qed

text \<open>
  \<^verbatim>\<open>main-server.js\<close> answers with the three orders as they are stored, the oldest
  first.
\<close>

theorem listOrders_MainServer_unsorted:
  "snd (listOrders MainServer noHost noEngine None None (threeOrders MainServer)) =
     Inr (JArr (map JObj
       [placed ''MAIN-ORD-1700000000000'' ''2023-11-14T22:13:20.000Z'',
        placed ''MAIN-ORD-1700000060000'' ''2023-11-14T22:14:20.000Z'',
        placed ''MAIN-ORD-1700000120000'' ''2023-11-14T22:15:20.000Z'']))
   \<and> createdTime noHost (placed ''MAIN-ORD-1700000000000'' ''2023-11-14T22:13:20.000Z'')
       = Inr (Some t0)
   \<and> createdTime noHost (placed ''MAIN-ORD-1700000120000'' ''2023-11-14T22:15:20.000Z'')
       = Inr (Some (t0 + 2 * minute))
   \<and> \<not> newestFirst noHost (orders (threeOrders MainServer))"
proof -
  have times: "createdTime noHost (placed ''MAIN-ORD-1700000000000'' ''2023-11-14T22:13:20.000Z'')
       = Inr (Some t0)"
    "createdTime noHost (placed ''MAIN-ORD-1700000060000'' ''2023-11-14T22:14:20.000Z'')
       = Inr (Some (t0 + minute))"
    "createdTime noHost (placed ''MAIN-ORD-1700000120000'' ''2023-11-14T22:15:20.000Z'')
       = Inr (Some (t0 + 2 * minute))"
    by (simp_all add: createdTime_placed Date_parse_t0 Date_parse_t1 Date_parse_t2)
  have "\<not> newestFirst noHost (orders (threeOrders MainServer))"
    by (simp add: newestFirst_def orders_threeOrders times minute_def)
  then show ?thesis
    by (simp add: listOrders_def orders_threeOrders times)
qed

text \<open>
  In \<^verbatim>\<open>part_000\<close> the request is answered by the handler for unknown paths under
  \<^verbatim>\<open>/api/\<close>, with status 404, whatever the orders file holds.
\<close>

theorem listOrders_Part000_unreached:
  "listOrders Part000 host engine storeId status st = (st, Inl NotFoundError)
   \<and> httpStatus NotFoundError = 404"
  by (simp add: listOrders_def)

subsection \<open>Registering a store\<close>

lemma map_of_rev_distinct:
  assumes "distinct (map fst xs)"
  shows "map_of (rev xs) = map_of xs"
  using assms
proof (induction xs)
  case Nil
  then show ?case by simp
next
  case (Cons kv xs)
  obtain k v where kv: "kv = (k, v)" by (cases kv)
  with Cons.prems have fresh: "map_of xs k = None"
    by (simp add: map_of_eq_None_iff)
  from Cons have "map_of (rev xs) = map_of xs"
    by simp
  with fresh show ?case
    by (auto simp: kv map_add_def fun_eq_iff split: option.splits)
qed

lemma distinct_setProp: "distinct (map fst ob) \<Longrightarrow> distinct (map fst (setProp k v ob))"
  by (simp add: setProp_def distinct_update)

lemma distinct_stampStore:
  "distinct (map fst body) \<Longrightarrow> distinct (map fst (stampStore v t1 t2 body))"
  by (cases v) (simp_all add: stampStore_def Let_def distinct_setProp)

lemma getProp_spread_distinct:
  assumes "distinct (map fst b)"
  shows "getProp (spread a b) k = (case getProp b k of Some x \<Rightarrow> Some x | None \<Rightarrow> getProp a k)"
proof -
  have "map_of (rev b) k = getProp b k"
    by (simp add: map_of_rev_distinct [OF assms] getProp_def)
  then show ?thesis
    by (simp add: getProp_spread)
qed

lemma getProp_stampStore:
  "getProp (stampStore v t1 t2 body) k =
     (if k = ''lastSeen'' then Some (JStr (toISOString t1))
      else if k = ''status'' then Some (JStr ''online'')
      else if k = ''registeredAt'' then
        (case v of
           MainServer \<Rightarrow> Some (JStr (toISOString t2))
         | Part000 \<Rightarrow> Some (orElse (getProp body ''registeredAt'') (JStr (toISOString t2)))
         | Part001 \<Rightarrow> getProp body ''registeredAt'')
      else getProp body k)"
  by (cases v) (simp_all add: stampStore_def Let_def getProp_setProp)

lemma stores_register:
  assumes "registerValid v body"
  shows "stores (fst (register v probe t1 t2 body st)) = mergeStore (stampStore v t1 t2 body) (stores st)"
  using assms by (cases v) (simp_all add: register_def Let_def)

lemma register_refuses:
  assumes "\<not> registerValid v body"
  shows "register v probe t1 t2 body st = (st, Inl ValidationError)"
  using assms by (simp add: register_def)

lemma register_answers:
  assumes "registerValid v body"
  shows "\<exists>answer. snd (register v probe t1 t2 body st) = Inr answer"
  using assms by (cases v) (simp_all add: register_def Let_def)

text \<open>
  C1 on the code. Store A registers at \<open>t0\<close> and again a minute later with the same
  body. In \<^verbatim>\<open>main-server.js\<close> and in \<^verbatim>\<open>part_000\<close> the stored \<^verbatim>\<open>registeredAt\<close> is then
  the time of the second registration, not that of the first.
\<close>

theorem register_again_restamps:
  "getProp (stores (registeredA MainServer) ! 0) ''registeredAt''
     = Some (JStr ''2023-11-14T22:13:20.000Z'')
   \<and> getProp (stores (fst (register MainServer probeUp (t0 + minute) (t0 + minute) shopA
                              (registeredA MainServer))) ! 0) ''registeredAt''
     = Some (JStr ''2023-11-14T22:14:20.000Z'')
   \<and> getProp (stores (registeredA Part000) ! 0) ''registeredAt''
     = Some (JStr ''2023-11-14T22:13:20.000Z'')
   \<and> getProp (stores (fst (register Part000 probeUp (t0 + minute) (t0 + minute) shopA
                              (registeredA Part000))) ! 0) ''registeredAt''
     = Some (JStr ''2023-11-14T22:14:20.000Z'')"
proof -
  have valid: "registerValid v shopA" for v
    by (cases v) (simp_all add: registerValid_def shopA_def getProp_def)
  have unique: "distinct (map fst (stampStore v (t0 + minute) (t0 + minute) shopA))" for v
    by (rule distinct_stampStore) (simp add: shopA_def)
  have found: "findIndex (sameStoreId (getProp (stampStore v (t0 + minute) (t0 + minute) shopA) ''storeId''))
                 (stores (registeredA v)) = Some 0" for v
    by (simp add: getProp_stampStore) (simp add: stores_registeredA sameStoreId_def shopA_def getProp_def)
  have again: "stores (fst (register v probeUp (t0 + minute) (t0 + minute) shopA (registeredA v))) ! 0
                 = spread (stores (registeredA v) ! 0) (stampStore v (t0 + minute) (t0 + minute) shopA)" for v
    by (simp add: stores_register [OF valid] mergeStore_def found) (simp add: stores_registeredA)
  have absent: "getProp shopA ''registeredAt'' = None"
    by (simp add: shopA_def getProp_def)
  have first: "getProp (stores (registeredA v) ! 0) ''registeredAt''
                 = (if v = Part001 then None else Some (JStr ''2023-11-14T22:13:20.000Z''))" for v
    by (simp add: stores_registeredA getProp_def)
  show ?thesis
    by (simp add: again getProp_spread_distinct [OF unique] getProp_stampStore absent orElse_def
        toISOString_t1 first)
qed

text \<open>
  C3 on the code. \<^verbatim>\<open>part_001\<close> checks no field: a body with neither \<^verbatim>\<open>storeId\<close> nor
  \<^verbatim>\<open>name\<close> is stamped, appended to the stores and answered with success, where
  \<^verbatim>\<open>main-server.js\<close> and \<^verbatim>\<open>part_000\<close> refuse it with 400 and store nothing.
\<close>

theorem register_Part001_unchecked:
  "stores (fst (register Part001 probeUp t0 t0 anonymous emptyState))
     = [[(''url'', JStr ''http://c.example''), (''lastSeen'', JStr ''2023-11-14T22:13:20.000Z''),
         (''status'', JStr ''online'')]]
   \<and> snd (register Part001 probeUp t0 t0 anonymous emptyState)
     = Inr (JObj [(''success'', JBool True),
                  (''store'', JObj [(''url'', JStr ''http://c.example''),
                                    (''lastSeen'', JStr ''2023-11-14T22:13:20.000Z''),
                                    (''status'', JStr ''online''),
                                    (''connectivity'', JStr ''good'')])])
   \<and> register MainServer probeUp t0 t0 anonymous emptyState = (emptyState, Inl ValidationError)
   \<and> register Part000 probeUp t0 t0 anonymous emptyState = (emptyState, Inl ValidationError)
   \<and> httpStatus ValidationError = 400"
  by (simp add: register_def registerValid_def stampStore_def mergeStore_def anonymous_def
      emptyState_def getProp_def setProp_def probeUp_def toISOString_t0 Let_def)

subsection \<open>Further facts about the handlers\<close>

text \<open>
  What a repeated registration stores. When the body passes the checks of the
  server, has no key twice, and a record with its \<^verbatim>\<open>storeId\<close> is found at index \<open>i\<close>,
  the record at \<open>i\<close> becomes the old record with the stamped body merged over it:
  \<^verbatim>\<open>lastSeen\<close> is the time of this registration, \<^verbatim>\<open>status\<close> is \<^verbatim>\<open>online\<close>, every
  other field of the body has the body's value, and every field the body does not
  have keeps the old value. \<^verbatim>\<open>registeredAt\<close> is the time of this registration in
  \<^verbatim>\<open>main-server.js\<close>, the body's value or else the time of this registration in
  \<^verbatim>\<open>part_000\<close>, and an ordinary field in \<^verbatim>\<open>part_001\<close>.
\<close>

theorem register_merges:
  assumes "registerValid v body" and "distinct (map fst body)"
    and "findIndex (sameStoreId (getProp body ''storeId'')) (stores st) = Some i"
  shows "stores (fst (register v probe t1 t2 body st))
           = (stores st)[i := spread (stores st ! i) (stampStore v t1 t2 body)]
         \<and> (\<forall>k. getProp (stores (fst (register v probe t1 t2 body st)) ! i) k =
               (if k = ''lastSeen'' then Some (JStr (toISOString t1))
                else if k = ''status'' then Some (JStr ''online'')
                else if k = ''registeredAt'' then
                  (case v of
                     MainServer \<Rightarrow> Some (JStr (toISOString t2))
                   | Part000 \<Rightarrow> Some (orElse (getProp body ''registeredAt'') (JStr (toISOString t2)))
                   | Part001 \<Rightarrow>
                       (case getProp body ''registeredAt'' of
                          Some x \<Rightarrow> Some x
                        | None \<Rightarrow> getProp (stores st ! i) ''registeredAt''))
                else (case getProp body k of
                        Some x \<Rightarrow> Some x
                      | None \<Rightarrow> getProp (stores st ! i) k)))"
proof -
  from findIndex_Some [OF assms(3)] have i: "i < length (stores st)"
    by simp
  have merged: "stores (fst (register v probe t1 t2 body st))
                  = (stores st)[i := spread (stores st ! i) (stampStore v t1 t2 body)]"
    using assms(3) by (simp add: stores_register [OF assms(1)] mergeStore_def storeId_stampStore)
  have fields: "getProp (spread (stores st ! i) (stampStore v t1 t2 body)) k =
               (if k = ''lastSeen'' then Some (JStr (toISOString t1))
                else if k = ''status'' then Some (JStr ''online'')
                else if k = ''registeredAt'' then
                  (case v of
                     MainServer \<Rightarrow> Some (JStr (toISOString t2))
                   | Part000 \<Rightarrow> Some (orElse (getProp body ''registeredAt'') (JStr (toISOString t2)))
                   | Part001 \<Rightarrow>
                       (case getProp body ''registeredAt'' of
                          Some x \<Rightarrow> Some x
                        | None \<Rightarrow> getProp (stores st ! i) ''registeredAt''))
                else (case getProp body k of
                        Some x \<Rightarrow> Some x
                      | None \<Rightarrow> getProp (stores st ! i) k))" for k
    by (cases v)
       (auto simp: getProp_spread_distinct [OF distinct_stampStore [OF assms(2)]] getProp_stampStore)
  from i merged fields show ?thesis
    by simp
qed

theorem register_merges_witness:
  "getProp (stores (fst (register Part000 probeUp (t0 + minute) (t0 + minute) shopA phoneState)) ! 0)
       ''phone'' = Some (JStr ''555-0100'')
   \<and> getProp (stores (fst (register Part000 probeUp (t0 + minute) (t0 + minute) shopA phoneState)) ! 0)
       ''lastSeen'' = Some (JStr ''2023-11-14T22:14:20.000Z'')
   \<and> getProp (stores (fst (register Part000 probeUp (t0 + minute) (t0 + minute) shopA phoneState)) ! 0)
       ''name'' = Some (JStr ''Shop A'')"
proof -
  have valid: "registerValid Part000 shopA"
    by (simp add: registerValid_def shopA_def getProp_def)
  have unique: "distinct (map fst shopA)"
    by (simp add: shopA_def)
  have found: "findIndex (sameStoreId (getProp shopA ''storeId'')) (stores phoneState) = Some 0"
    by (simp add: stores_phoneState sameStoreId_def shopA_def getProp_def)
  have body: "getProp shopA ''phone'' = None" "getProp shopA ''name'' = Some (JStr ''Shop A'')"
    by (simp_all add: shopA_def getProp_def)
  have old: "getProp (stores phoneState ! 0) ''phone'' = Some (JStr ''555-0100'')"
    by (simp add: stores_phoneState getProp_def)
  note merged = register_merges [OF valid unique found, where probe = probeUp
      and ?t1.0 = "t0 + minute" and ?t2.0 = "t0 + minute", THEN conjunct2, rule_format]
  show ?thesis
    by (simp add: merged body old toISOString_t1)
qed

text \<open>
  \<^verbatim>\<open>main-server.js\<close> and \<^verbatim>\<open>part_000\<close> refuse a registration whose \<^verbatim>\<open>storeId\<close> or
  \<^verbatim>\<open>name\<close> is missing (or falsy) with 400 and leave the state as it is; a
  registration they accept has both.
\<close>

theorem register_requires_fields:
  assumes "v = MainServer \<or> v = Part000"
  shows "(\<not> truthy (getProp body ''storeId'') \<or> \<not> truthy (getProp body ''name'')
            \<longrightarrow> register v probe t1 t2 body st = (st, Inl ValidationError))
         \<and> httpStatus ValidationError = 400
         \<and> ((\<exists>answer. snd (register v probe t1 t2 body st) = Inr answer)
            \<longrightarrow> truthy (getProp body ''storeId'') \<and> truthy (getProp body ''name''))"
proof -
  have "\<not> registerValid v body"
    if "\<not> truthy (getProp body ''storeId'') \<or> \<not> truthy (getProp body ''name'')"
    using that assms by (auto simp: registerValid_def)
  then have refused: "register v probe t1 t2 body st = (st, Inl ValidationError)"
    if "\<not> truthy (getProp body ''storeId'') \<or> \<not> truthy (getProp body ''name'')"
    using that by (simp add: register_refuses)
  then show ?thesis
    by (cases "truthy (getProp body ''storeId'') \<and> truthy (getProp body ''name'')") auto
qed

theorem register_requires_fields_witness:
  "register MainServer probeUp t0 t0 anonymous (registeredA MainServer)
     = (registeredA MainServer, Inl ValidationError)"
proof -
  have v: "MainServer = MainServer \<or> MainServer = Part000"
    by simp
  have missing: "\<not> truthy (getProp anonymous ''storeId'') \<or> \<not> truthy (getProp anonymous ''name'')"
    by (simp add: anonymous_def getProp_def)
  from register_requires_fields [OF v, THEN conjunct1, THEN mp, OF missing]
  show ?thesis .
qed

text \<open>
  A sync of one store that does not go through changes nothing: an unknown store
  is answered with 404, and a store that cannot be reached, or answers with an error
  status, with 500.
\<close>

theorem syncProducts_failure:
  "(find (sameStoreId (Some (JStr A))) (stores st) = None
      \<longrightarrow> syncProducts fetchProducts A st = (st, Inl NotFoundError))
   \<and> (\<forall>store. find (sameStoreId (Some (JStr A))) (stores st) = Some store
         \<and> (\<forall>ps. fetchProducts (getProp store ''url'') \<noteq> FetchOk ps)
         \<longrightarrow> fst (syncProducts fetchProducts A st) = st
             \<and> (\<exists>msg. snd (syncProducts fetchProducts A st) = Inl (SyncError msg)))
   \<and> httpStatus NotFoundError = 404 \<and> (\<forall>msg. httpStatus (SyncError msg) = 500)"
  by (auto simp: syncProducts_def split: fetchResult.splits)

theorem syncProducts_failure_witness:
  "syncProducts remote ''ghost'' (bothRegistered Part000) = (bothRegistered Part000, Inl NotFoundError)
   \<and> syncProducts remote ''B'' (bothRegistered Part000)
       = (bothRegistered Part000, Inl (SyncError ''connect ECONNREFUSED''))"
proof -
  have ghost: "find (sameStoreId (Some (JStr ''ghost''))) (stores (bothRegistered Part000)) = None"
    by (simp add: stores_bothRegistered sameStoreId_def getProp_def)
  have b: "find (sameStoreId (Some (JStr ''B''))) (stores (bothRegistered Part000))
             = Some (stores (bothRegistered Part000) ! Suc 0)"
    by (simp add: stores_bothRegistered sameStoreId_def getProp_def)
  have down: "remote (getProp (stores (bothRegistered Part000) ! Suc 0) ''url'')
                = FetchThrows ''connect ECONNREFUSED''"
    by (simp add: stores_bothRegistered remote_def getProp_def)
  from syncProducts_failure [where fetchProducts = remote and A = "''ghost''"
      and st = "bothRegistered Part000", THEN conjunct1, THEN mp, OF ghost]
  have "syncProducts remote ''ghost'' (bothRegistered Part000) = (bothRegistered Part000, Inl NotFoundError)" .
  moreover
  have "syncProducts remote ''B'' (bothRegistered Part000)
          = (bothRegistered Part000, Inl (SyncError ''connect ECONNREFUSED''))"
    by (simp add: syncProducts_def b down)
  ultimately show ?thesis
    by simp
qed

end
